theory Spec2Isabelle
  imports Complex_Main
begin

section \<open>Reduced density matrices: \<open>density_matrix.py\<close>\<close>

text \<open>
  Orbital indices and orbital counts are natural numbers. The active-space tensors
  \<open>rdm1\<close> and \<open>rdm2\<close> are given by their entry functions; \<open>RDM1\<close> and \<open>RDM2\<close> read them only
  at indices \<open>p - num_inactive_orbs\<close> with \<open>p\<close> active, that is inside
  \<open>[0, num_active_orbs)\<close>. Floating-point values are modelled by real numbers.
\<close>

type_synonym tensor1 = "nat \<Rightarrow> real"
type_synonym tensor2 = "nat \<Rightarrow> nat \<Rightarrow> real"
type_synonym tensor4 = "nat \<Rightarrow> nat \<Rightarrow> nat \<Rightarrow> nat \<Rightarrow> real"

definition RDM1 :: "nat \<Rightarrow> nat \<Rightarrow> nat \<Rightarrow> nat \<Rightarrow> tensor2 \<Rightarrow> real" where
  "RDM1 p q num_inactive_orbs num_active_orbs rdm1 =
     (let virt_start = num_inactive_orbs + num_active_orbs in
      if p \<ge> virt_start \<or> q \<ge> virt_start then 0
      else if p \<ge> num_inactive_orbs \<and> q \<ge> num_inactive_orbs
        then rdm1 (p - num_inactive_orbs) (q - num_inactive_orbs)
      else if p < num_inactive_orbs \<and> q < num_inactive_orbs
        then (if p = q then 2 else 0)
      else 0)"

definition RDM2 ::
  "nat \<Rightarrow> nat \<Rightarrow> nat \<Rightarrow> nat \<Rightarrow> nat \<Rightarrow> nat \<Rightarrow> tensor2 \<Rightarrow> tensor4 \<Rightarrow> real" where
  "RDM2 p q r s num_inactive_orbs num_active_orbs rdm1 rdm2 =
     (let virt_start = num_inactive_orbs + num_active_orbs in
      if p \<ge> virt_start \<or> q \<ge> virt_start \<or> r \<ge> virt_start \<or> s \<ge> virt_start then 0
      else if p \<ge> num_inactive_orbs \<and> q \<ge> num_inactive_orbs
              \<and> r \<ge> num_inactive_orbs \<and> s \<ge> num_inactive_orbs
        then rdm2 (p - num_inactive_orbs) (q - num_inactive_orbs)
                  (r - num_inactive_orbs) (s - num_inactive_orbs)
      else if p < num_inactive_orbs \<and> q \<ge> num_inactive_orbs
              \<and> r \<ge> num_inactive_orbs \<and> s < num_inactive_orbs
        then (if p = s then - rdm1 (q - num_inactive_orbs) (r - num_inactive_orbs) else 0)
      else if p \<ge> num_inactive_orbs \<and> q < num_inactive_orbs
              \<and> r < num_inactive_orbs \<and> s \<ge> num_inactive_orbs
        then (if q = r then - rdm1 (p - num_inactive_orbs) (s - num_inactive_orbs) else 0)
      else if p \<ge> num_inactive_orbs \<and> q \<ge> num_inactive_orbs
              \<and> r < num_inactive_orbs \<and> s < num_inactive_orbs
        then (if r = s then 2 * rdm1 (p - num_inactive_orbs) (q - num_inactive_orbs) else 0)
      else if p < num_inactive_orbs \<and> q < num_inactive_orbs
              \<and> r \<ge> num_inactive_orbs \<and> s \<ge> num_inactive_orbs
        then (if p = q then 2 * rdm1 (r - num_inactive_orbs) (s - num_inactive_orbs) else 0)
      else if p < num_inactive_orbs \<and> q < num_inactive_orbs
              \<and> r < num_inactive_orbs \<and> s < num_inactive_orbs
        then (let val = 0;
                  val = (if p = q \<and> r = s then val + 4 else val);
                  val = (if q = r \<and> p = s then val - 2 else val)
              in val)
      else 0)"

subsection \<open>The orbital partition\<close>

datatype orb_block = Inactive | Active | Virtual

definition block :: "nat \<Rightarrow> nat \<Rightarrow> nat \<Rightarrow> orb_block" where
  "block num_inactive_orbs num_active_orbs p =
     (if p < num_inactive_orbs then Inactive
      else if p < num_inactive_orbs + num_active_orbs then Active
      else Virtual)"

text \<open>The block pattern of an index quadruple.\<close>

definition pattern :: "nat \<Rightarrow> nat \<Rightarrow> nat \<Rightarrow> nat \<Rightarrow> nat \<Rightarrow> nat \<Rightarrow> orb_block list" where
  "pattern ni na p q r s = [block ni na p, block ni na q, block ni na r, block ni na s]"

text \<open>The six patterns without a virtual index that \<open>RDM2\<close> lists explicitly.\<close>

definition listed_patterns :: "orb_block list list" where
  "listed_patterns =
     [[Active, Active, Active, Active],
      [Inactive, Active, Active, Inactive],
      [Active, Inactive, Inactive, Active],
      [Active, Active, Inactive, Inactive],
      [Inactive, Inactive, Active, Active],
      [Inactive, Inactive, Inactive, Inactive]]"

definition delta :: "nat \<Rightarrow> nat \<Rightarrow> real" where
  "delta i j = (if i = j then 1 else 0)"

text \<open>Concrete active-space tensors used for evaluation.\<close>

definition toy_rdm1 :: tensor2 where
  "toy_rdm1 a b = real (a + b) + 1"

definition toy_rdm2 :: tensor4 where
  "toy_rdm2 a b c d = real (a * c + b * d) + 1"

subsection \<open>Orbital gradients and the response metric\<close>

text \<open>
  The integral tensors \<open>h_int\<close> and \<open>g_int\<close> are given by their entry functions. A Python loop
  over \<open>range(n)\<close> that accumulates into one array cell is a \<open>fold\<close> over \<open>[0..<n]\<close> of the
  loop body, in the order of the source.
\<close>

type_synonym kappa_idx = "(nat \<times> nat) list"

definition gradient_1e_step ::
  "tensor2 \<Rightarrow> nat \<Rightarrow> nat \<Rightarrow> nat \<Rightarrow> nat \<Rightarrow> tensor2 \<Rightarrow> nat \<Rightarrow> real \<Rightarrow> real" where
  "gradient_1e_step h_int m n ni na rdm1 p acc =
     (let acc = acc + 2 * h_int n p * RDM1 m p ni na rdm1;
          acc = acc - 2 * h_int p m * RDM1 p n ni na rdm1
      in acc)"

definition gradient_2e_step ::
  "tensor4 \<Rightarrow> nat \<Rightarrow> nat \<Rightarrow> nat \<Rightarrow> nat \<Rightarrow> tensor2 \<Rightarrow> tensor4 \<Rightarrow> nat \<Rightarrow> nat \<Rightarrow> nat
     \<Rightarrow> real \<Rightarrow> real" where
  "gradient_2e_step g_int m n ni na rdm1 rdm2 p q r acc =
     (let acc = acc + g_int n p q r * RDM2 m p q r ni na rdm1 rdm2;
          acc = acc - g_int p m q r * RDM2 p n q r ni na rdm1 rdm2;
          acc = acc - g_int m p q r * RDM2 n p q r ni na rdm1 rdm2;
          acc = acc + g_int p n q r * RDM2 p m q r ni na rdm1 rdm2
      in acc)"

text \<open>The body of the loop over \<open>kappa_idx\<close> in \<open>get_orbital_gradient\<close>, for the pair \<open>(m, n)\<close>.\<close>

definition gradient_entry ::
  "tensor2 \<Rightarrow> tensor4 \<Rightarrow> nat \<Rightarrow> nat \<Rightarrow> nat \<Rightarrow> nat \<Rightarrow> tensor2 \<Rightarrow> tensor4 \<Rightarrow> real" where
  "gradient_entry h_int g_int m n ni na rdm1 rdm2 =
     (let orbs = [0..<ni + na];
          acc = fold (gradient_1e_step h_int m n ni na rdm1) orbs 0;
          acc = fold (\<lambda>p. fold (\<lambda>q. fold (gradient_2e_step g_int m n ni na rdm1 rdm2 p q) orbs)
                   orbs) orbs acc
      in acc)"

definition get_orbital_gradient ::
  "tensor2 \<Rightarrow> tensor4 \<Rightarrow> kappa_idx \<Rightarrow> nat \<Rightarrow> nat \<Rightarrow> tensor2 \<Rightarrow> tensor4 \<Rightarrow> real list" where
  "get_orbital_gradient h_int g_int kappa_idx ni na rdm1 rdm2 =
     map (\<lambda>(m, n). gradient_entry h_int g_int m n ni na rdm1 rdm2) kappa_idx"

definition response_1e_step ::
  "tensor2 \<Rightarrow> nat \<Rightarrow> nat \<Rightarrow> nat \<Rightarrow> nat \<Rightarrow> tensor2 \<Rightarrow> nat \<Rightarrow> real \<Rightarrow> real" where
  "response_1e_step h_int m n ni na rdm1 p acc =
     (let acc = acc + h_int n p * RDM1 m p ni na rdm1;
          acc = acc - h_int p m * RDM1 p n ni na rdm1
      in acc)"

definition response_2e_step ::
  "tensor4 \<Rightarrow> nat \<Rightarrow> nat \<Rightarrow> nat \<Rightarrow> nat \<Rightarrow> tensor2 \<Rightarrow> tensor4 \<Rightarrow> nat \<Rightarrow> nat \<Rightarrow> nat
     \<Rightarrow> real \<Rightarrow> real" where
  "response_2e_step g_int m n ni na rdm1 rdm2 p q r acc =
     (let acc = acc + 1 / 2 * g_int n p q r * RDM2 m p q r ni na rdm1 rdm2;
          acc = acc - 1 / 2 * g_int p m q r * RDM2 p n q r ni na rdm1 rdm2;
          acc = acc - 1 / 2 * g_int m p q r * RDM2 n p q r ni na rdm1 rdm2;
          acc = acc + 1 / 2 * g_int p n q r * RDM2 p m q r ni na rdm1 rdm2
      in acc)"

text \<open>
  The common body of the two loops of \<open>get_orbital_gradient_response\<close>, with the names
  \<open>m\<close> and \<open>n\<close> of the source.
\<close>

definition response_entry ::
  "tensor2 \<Rightarrow> tensor4 \<Rightarrow> nat \<Rightarrow> nat \<Rightarrow> nat \<Rightarrow> nat \<Rightarrow> tensor2 \<Rightarrow> tensor4 \<Rightarrow> real" where
  "response_entry h_int g_int m n ni na rdm1 rdm2 =
     (let orbs = [0..<ni + na];
          acc = fold (response_1e_step h_int m n ni na rdm1) orbs 0;
          acc = fold (\<lambda>p. fold (\<lambda>q. fold (response_2e_step g_int m n ni na rdm1 rdm2 p q) orbs)
                   orbs) orbs acc
      in acc)"

text \<open>
  The first loop unpacks a pair of \<open>kappa_idx\<close> as \<open>(m, n)\<close> and fills \<open>gradient[idx]\<close>; the
  second loop unpacks it as \<open>(n, m)\<close> and fills \<open>gradient[idx + shift]\<close>.
\<close>

definition get_orbital_gradient_response ::
  "tensor2 \<Rightarrow> tensor4 \<Rightarrow> kappa_idx \<Rightarrow> nat \<Rightarrow> nat \<Rightarrow> tensor2 \<Rightarrow> tensor4 \<Rightarrow> real list" where
  "get_orbital_gradient_response h_int g_int kappa_idx ni na rdm1 rdm2 =
     (let gradient =
            map (\<lambda>(m, n). response_entry h_int g_int m n ni na rdm1 rdm2) kappa_idx
          @ map (\<lambda>(n, m). response_entry h_int g_int m n ni na rdm1 rdm2) kappa_idx
      in map (\<lambda>x. 2 powr (- 1 / 2) * x) gradient)"

text \<open>
  The response gradient as the specification describes it: the entries of
  \<open>get_orbital_gradient\<close> with only the 2-electron coefficients halved, the 1-electron
  contributions unchanged.
\<close>

definition spec_response_entry ::
  "tensor2 \<Rightarrow> tensor4 \<Rightarrow> nat \<Rightarrow> nat \<Rightarrow> nat \<Rightarrow> nat \<Rightarrow> tensor2 \<Rightarrow> tensor4 \<Rightarrow> real" where
  "spec_response_entry h_int g_int m n ni na rdm1 rdm2 =
     (let orbs = [0..<ni + na];
          acc = fold (gradient_1e_step h_int m n ni na rdm1) orbs 0;
          acc = fold (\<lambda>p. fold (\<lambda>q. fold (response_2e_step g_int m n ni na rdm1 rdm2 p q) orbs)
                   orbs) orbs acc
      in acc)"

definition spec_orbital_gradient_response ::
  "tensor2 \<Rightarrow> tensor4 \<Rightarrow> kappa_idx \<Rightarrow> nat \<Rightarrow> nat \<Rightarrow> tensor2 \<Rightarrow> tensor4 \<Rightarrow> real list" where
  "spec_orbital_gradient_response h_int g_int kappa_idx ni na rdm1 rdm2 =
     map (\<lambda>x. 2 powr (- 1 / 2) * x)
       (map (\<lambda>(m, n). spec_response_entry h_int g_int m n ni na rdm1 rdm2) kappa_idx
        @ map (\<lambda>(n, m). spec_response_entry h_int g_int m n ni na rdm1 rdm2) kappa_idx)"

text \<open>
  \<open>get_orbital_response_metric_sigma\<close>: the cell \<open>sigma[idx1, idx2]\<close> is written once, for the
  pair \<open>(n, m)\<close> at \<open>idx1\<close> and the pair \<open>(p, q)\<close> at \<open>idx2\<close>; the matrix is a list of rows.
\<close>

definition sigma_entry :: "nat \<times> nat \<Rightarrow> nat \<times> nat \<Rightarrow> nat \<Rightarrow> nat \<Rightarrow> tensor2 \<Rightarrow> real" where
  "sigma_entry nm pq ni na rdm1 =
     (case nm of (n, m) \<Rightarrow> case pq of (p, q) \<Rightarrow>
        (let acc = 0;
             acc = (if p = n then acc + RDM1 m q ni na rdm1 else acc);
             acc = (if m = q then acc - RDM1 p n ni na rdm1 else acc)
         in acc))"

definition get_orbital_response_metric_sigma ::
  "kappa_idx \<Rightarrow> nat \<Rightarrow> nat \<Rightarrow> tensor2 \<Rightarrow> real list list" where
  "get_orbital_response_metric_sigma kappa_idx ni na rdm1 =
     map (\<lambda>nm. map (\<lambda>pq. - 1 / 2 * sigma_entry nm pq ni na rdm1) kappa_idx) kappa_idx"

text \<open>Concrete integrals used for evaluation.\<close>

definition toy_h :: tensor2 where
  "toy_h a b = real (a + 2 * b)"

definition zero_g :: tensor4 where
  "zero_g a b c d = 0"

section \<open>Operators on determinants: \<open>operator_state_algebra.py\<close>\<close>

text \<open>
  A determinant is a non-negative Python integer, modelled by a natural number with the
  bit operations of the library. Arrays are lists; \<open>det2idx\<close> is a map. Every exception
  the code can raise is a value of \<open>py_error\<close>, and a function that can raise returns a
  sum, \<open>Inl\<close> carrying the error.
\<close>

unbundle bit_operations_syntax

datatype py_error = KeyError | IndexError | ValueError string | TypeError string

function bitcount_loop :: "nat \<Rightarrow> nat \<Rightarrow> nat" where
  "bitcount_loop x b = (if x > 0 then bitcount_loop (x AND (x - 1)) (b + 1) else b)"
  by pat_completeness auto
termination
proof (relation "measure fst")
  show "wf (measure fst)" by simp
next
  fix x b :: nat
  assume "0 < x"
  have "int (x AND (x - 1)) = int x AND int (x - 1)"
    by (simp add: of_nat_and_eq)
  also have "\<dots> \<le> int (x - 1)"
    by (rule AND_upper2) simp
  finally have "x AND (x - 1) \<le> x - 1" by simp
  with \<open>0 < x\<close> show "((x AND (x - 1), b + 1), (x, b)) \<in> measure fst" by simp
qed

definition bitcount :: "nat \<Rightarrow> nat" where
  "bitcount x = bitcount_loop x 0"

text \<open>
  The two inner loops of \<open>apply_operator\<close> (and of \<open>add_operator_matrix\<close>) over the
  annihilation and over the creation indices differ only in the bit value at which the
  operator kills the determinant: \<open>kill = 0\<close> for annihilation, \<open>kill = 1\<close> for creation.
  The result \<open>Inr None\<close> is the kill state. The shift count
  \<open>2 * num_active_orbs - 1 - orb_idx\<close> is negative when \<open>orb_idx \<ge> 2 * num_active_orbs\<close>, where
  Python raises a ValueError; reading \<open>parity_check\<close> out of range raises an IndexError.
\<close>

fun operator_loop ::
  "nat \<Rightarrow> nat \<Rightarrow> nat list \<Rightarrow> nat list \<Rightarrow> nat \<Rightarrow> nat \<Rightarrow> py_error + (nat \<times> nat) option" where
  "operator_loop kill num_active_orbs parity_check [] det phase_changes =
     Inr (Some (det, phase_changes))"
| "operator_loop kill num_active_orbs parity_check (orb_idx # orb_idxs) det phase_changes =
     (if 2 * num_active_orbs < orb_idx + 1 then Inl (ValueError ''negative shift count'')
      else if drop_bit (2 * num_active_orbs - 1 - orb_idx) det AND 1 = kill then Inr None
      else
        let det = det XOR push_bit (2 * num_active_orbs - 1 - orb_idx) 1 in
        if length parity_check \<le> orb_idx then Inl IndexError
        else operator_loop kill num_active_orbs parity_check orb_idxs det
               (phase_changes + bitcount (det AND parity_check ! orb_idx)))"

text \<open>
  The action of one operator string on one determinant: the (already reversed)
  annihilation indices first, then the creation indices.
\<close>

definition apply_string ::
  "nat \<Rightarrow> nat list \<Rightarrow> nat list \<Rightarrow> nat list \<Rightarrow> nat \<Rightarrow> py_error + (nat \<times> nat) option" where
  "apply_string num_active_orbs parity_check anni_idxs create_idxs det =
     (case operator_loop 0 num_active_orbs parity_check anni_idxs det 0 of
        Inl e \<Rightarrow> Inl e
      | Inr None \<Rightarrow> Inr None
      | Inr (Some (det, phase_changes)) \<Rightarrow>
          operator_loop 1 num_active_orbs parity_check create_idxs det phase_changes)"

text \<open>
  The lookup of the new determinant: with \<open>do_unsafe\<close> an absent determinant is skipped
  (\<open>Inr None\<close>); otherwise \<open>det2idx[det]\<close> raises a KeyError. The code builds no
  message of its own for it, and what the error of the compiled lookup carries is left
  open: \<open>KeyError\<close> has no argument.
\<close>

definition lookup_det :: "(nat \<rightharpoonup> nat) \<Rightarrow> bool \<Rightarrow> nat \<Rightarrow> py_error + nat option" where
  "lookup_det det2idx do_unsafe det =
     (if do_unsafe \<and> det2idx det = None then Inr None
      else case det2idx det of None \<Rightarrow> Inl KeyError | Some j \<Rightarrow> Inr (Some j))"

fun apply_operator_loop ::
  "real list \<Rightarrow> nat list \<Rightarrow> nat list \<Rightarrow> nat \<Rightarrow> nat list \<Rightarrow> (nat \<rightharpoonup> nat) \<Rightarrow> bool \<Rightarrow> real
     \<Rightarrow> (nat \<times> nat) list \<Rightarrow> real list \<Rightarrow> py_error + real list" where
  "apply_operator_loop state anni_idxs create_idxs num_active_orbs parity_check det2idx
       do_unsafe factor [] tmp_state = Inr tmp_state"
| "apply_operator_loop state anni_idxs create_idxs num_active_orbs parity_check det2idx
       do_unsafe factor ((i, det) # rest) tmp_state =
     (if length state \<le> i then Inl IndexError
      else if \<bar>state ! i\<bar> < 1 / 10 ^ 14 then
        apply_operator_loop state anni_idxs create_idxs num_active_orbs parity_check det2idx
          do_unsafe factor rest tmp_state
      else
        case apply_string num_active_orbs parity_check anni_idxs create_idxs det of
          Inl e \<Rightarrow> Inl e
        | Inr None \<Rightarrow>
            apply_operator_loop state anni_idxs create_idxs num_active_orbs parity_check
              det2idx do_unsafe factor rest tmp_state
        | Inr (Some (det, phase_changes)) \<Rightarrow>
            (case lookup_det det2idx do_unsafe det of
               Inl e \<Rightarrow> Inl e
             | Inr None \<Rightarrow>
                 apply_operator_loop state anni_idxs create_idxs num_active_orbs parity_check
                   det2idx do_unsafe factor rest tmp_state
             | Inr (Some j) \<Rightarrow>
                 if length tmp_state \<le> j then Inl IndexError
                 else
                   apply_operator_loop state anni_idxs create_idxs num_active_orbs
                     parity_check det2idx do_unsafe factor rest
                     (tmp_state[j := tmp_state ! j
                        + factor * (- 1) ^ phase_changes * state ! i])))"

definition apply_operator ::
  "real list \<Rightarrow> nat list \<Rightarrow> nat list \<Rightarrow> nat \<Rightarrow> nat list \<Rightarrow> nat list \<Rightarrow> (nat \<rightharpoonup> nat) \<Rightarrow> bool
     \<Rightarrow> real list \<Rightarrow> real \<Rightarrow> py_error + real list" where
  "apply_operator state anni_idxs create_idxs num_active_orbs parity_check idx2det det2idx
       do_unsafe tmp_state factor =
     apply_operator_loop state (rev anni_idxs) (rev create_idxs) num_active_orbs parity_check
       det2idx do_unsafe factor (enumerate 0 idx2det) tmp_state"

text \<open>The matrix \<open>op_mat\<close> is a list of rows: \<open>op_mat[j, i]\<close> is \<open>op_mat ! j ! i\<close>.\<close>

fun add_operator_matrix_loop ::
  "nat list \<Rightarrow> nat list \<Rightarrow> nat \<Rightarrow> nat list \<Rightarrow> (nat \<rightharpoonup> nat) \<Rightarrow> bool \<Rightarrow> real
     \<Rightarrow> (nat \<times> nat) list \<Rightarrow> real list list \<Rightarrow> py_error + real list list" where
  "add_operator_matrix_loop anni_idxs create_idxs num_active_orbs parity_check det2idx
       do_unsafe factor [] op_mat = Inr op_mat"
| "add_operator_matrix_loop anni_idxs create_idxs num_active_orbs parity_check det2idx
       do_unsafe factor ((i, det) # rest) op_mat =
     (case apply_string num_active_orbs parity_check anni_idxs create_idxs det of
        Inl e \<Rightarrow> Inl e
      | Inr None \<Rightarrow>
          add_operator_matrix_loop anni_idxs create_idxs num_active_orbs parity_check det2idx
            do_unsafe factor rest op_mat
      | Inr (Some (det, phase_changes)) \<Rightarrow>
          (case lookup_det det2idx do_unsafe det of
             Inl e \<Rightarrow> Inl e
           | Inr None \<Rightarrow>
               add_operator_matrix_loop anni_idxs create_idxs num_active_orbs parity_check
                 det2idx do_unsafe factor rest op_mat
           | Inr (Some j) \<Rightarrow>
               if length op_mat \<le> j \<or> length (op_mat ! j) \<le> i then Inl IndexError
               else
                 add_operator_matrix_loop anni_idxs create_idxs num_active_orbs parity_check
                   det2idx do_unsafe factor rest
                   (op_mat[j := (op_mat ! j)[i := op_mat ! j ! i
                      + factor * (- 1) ^ phase_changes]])))"

definition add_operator_matrix ::
  "real list list \<Rightarrow> nat list \<Rightarrow> nat list \<Rightarrow> nat \<Rightarrow> nat list \<Rightarrow> nat list \<Rightarrow> (nat \<rightharpoonup> nat)
     \<Rightarrow> bool \<Rightarrow> real \<Rightarrow> py_error + real list list" where
  "add_operator_matrix op_mat anni_idxs create_idxs num_active_orbs parity_check idx2det
       det2idx do_unsafe factor =
     add_operator_matrix_loop (rev anni_idxs) (rev create_idxs) num_active_orbs parity_check
       det2idx do_unsafe factor (enumerate 0 idx2det) op_mat"

text \<open>
  The parity-check table built at the start of \<open>build_operator_matrix\<close> and of
  \<open>propagate_state\<close>: the loop \<open>for i in range(2 * num_active_orbs - 1, -1, -1)\<close>.
\<close>

definition parity_check_table :: "nat \<Rightarrow> nat list" where
  "parity_check_table num_active_orbs =
     snd (fold (\<lambda>i (num, parity_check).
                  let num = num + 2 ^ i
                  in (num, parity_check[2 * num_active_orbs - i := num]))
            (rev [0..<2 * num_active_orbs])
            (0, replicate (2 * num_active_orbs + 1) 0))"


text \<open>
  A two-determinant system used for evaluation: one active spatial orbital, the
  determinants \<open>10\<close> (spin orbital 0 occupied) and \<open>01\<close> (spin orbital 1 occupied).
\<close>

definition toy_idx2det :: "nat list" where
  "toy_idx2det = [2, 1]"

definition toy_det2idx :: "nat \<rightharpoonup> nat" where
  "toy_det2idx = [2 \<mapsto> 0, 1 \<mapsto> 1]"

text \<open>
  A determinant index that is not closed under the excitation from spin orbital 0 to
  spin orbital 1: it holds the empty determinant and \<open>10\<close>, but not \<open>01\<close>.
\<close>

definition open_idx2det :: "nat list" where
  "open_idx2det = [0, 2]"

definition open_det2idx :: "nat \<rightharpoonup> nat" where
  "open_det2idx = [0 \<mapsto> 0, 2 \<mapsto> 1]"

subsection \<open>Fermionic operators, the CI space and the ansatz structures\<close>

text \<open>
  A FermionicOperator is read through its dictionary \<open>operators\<close>, from a string of
  \<open>(orbital index, is creation)\<close> pairs to a coefficient: here the list of its items in
  iteration order. \<open>CI_Info\<close> is a record of the attributes the code reads.
  \<open>UpsStructure\<close> and \<open>UccStructure\<close> carry the same two attributes; \<open>wf_struct\<close> tells
  which class an object has.
\<close>

type_synonym fermi_label = "(nat \<times> bool) list"
type_synonym fermionic_operator = "(fermi_label \<times> real) list"

record ci_info =
  idx2det :: "nat list"
  det2idx :: "nat \<rightharpoonup> nat"
  num_inactive_orbs :: nat
  num_active_orbs :: nat
  num_virtual_orbs :: nat
  space_extension_offset :: nat

record wf_structure =
  excitation_operator_type :: "string list"
  excitation_indices :: "nat list list"

datatype wf_struct = UpsStructure wf_structure | UccStructure wf_structure | OtherStructure

datatype operator = Str string | FermionicOperator fermionic_operator

text \<open>
  What \<open>operator_state_algebra.py\<close> imports and calls but does not define is a parameter:
  the excitation generators of \<open>operators.py\<close> (called with
  \<open>return_anti_hermitian = True\<close>; \<open>G3\<close> to \<open>G6\<close> take their indices as a list, in the order
  of the call), the sum and the scalar multiple of FermionicOperators,
  \<open>get_folded_operator\<close>, and \<open>scipy.sparse.linalg.expm_multiply\<close>.
\<close>

record collaborators =
  G1 :: "nat \<Rightarrow> nat \<Rightarrow> fermionic_operator"
  G2 :: "nat \<Rightarrow> nat \<Rightarrow> nat \<Rightarrow> nat \<Rightarrow> fermionic_operator"
  G3 :: "nat list \<Rightarrow> fermionic_operator"
  G4 :: "nat list \<Rightarrow> fermionic_operator"
  G5 :: "nat list \<Rightarrow> fermionic_operator"
  G6 :: "nat list \<Rightarrow> fermionic_operator"
  G1_sa :: "nat \<Rightarrow> nat \<Rightarrow> fermionic_operator"
  G2_1_sa :: "nat \<Rightarrow> nat \<Rightarrow> nat \<Rightarrow> nat \<Rightarrow> fermionic_operator"
  G2_2_sa :: "nat \<Rightarrow> nat \<Rightarrow> nat \<Rightarrow> nat \<Rightarrow> fermionic_operator"
  op_add :: "fermionic_operator \<Rightarrow> fermionic_operator \<Rightarrow> fermionic_operator"
  op_scale :: "real \<Rightarrow> fermionic_operator \<Rightarrow> fermionic_operator"
  get_folded_operator :: "fermionic_operator \<Rightarrow> nat \<Rightarrow> nat \<Rightarrow> nat \<Rightarrow> fermionic_operator"
  expm_multiply :: "real list list \<Rightarrow> real list \<Rightarrow> real list"

text \<open>The separation of a string into its annihilation and its creation indices.\<close>

definition anni_idx :: "fermi_label \<Rightarrow> nat list" where
  "anni_idx fermi_label = map fst (filter (\<lambda>fermi_op. \<not> snd fermi_op) fermi_label)"

definition create_idx :: "fermi_label \<Rightarrow> nat list" where
  "create_idx fermi_label = map fst (filter (\<lambda>fermi_op. snd fermi_op) fermi_label)"

subsection \<open>\<open>build_operator_matrix\<close>\<close>

fun build_operator_matrix_loop ::
  "ci_info \<Rightarrow> nat list \<Rightarrow> bool \<Rightarrow> fermionic_operator \<Rightarrow> real list list
     \<Rightarrow> py_error + real list list" where
  "build_operator_matrix_loop ci parity_check do_unsafe [] op_mat = Inr op_mat"
| "build_operator_matrix_loop ci parity_check do_unsafe ((fermi_label, coeff) # rest) op_mat =
     (case add_operator_matrix op_mat (anni_idx fermi_label) (create_idx fermi_label)
             (num_active_orbs ci) parity_check (idx2det ci) (det2idx ci) do_unsafe coeff of
        Inl e \<Rightarrow> Inl e
      | Inr op_mat \<Rightarrow> build_operator_matrix_loop ci parity_check do_unsafe rest op_mat)"

definition build_operator_matrix ::
  "fermionic_operator \<Rightarrow> ci_info \<Rightarrow> bool \<Rightarrow> py_error + real list list" where
  "build_operator_matrix op ci do_unsafe =
     (let num_dets = length (idx2det ci);
          op_mat = replicate num_dets (replicate num_dets 0);
          parity_check = parity_check_table (num_active_orbs ci)
      in build_operator_matrix_loop ci parity_check do_unsafe op op_mat)"

subsection \<open>The operator branch of \<open>propagate_state\<close>\<close>

text \<open>
  The loop over the strings of one (folded) operator, which accumulates into \<open>tmp_state\<close>;
  \<open>apply_fermionic_operator\<close> is the whole \<open>else\<close> branch after the folding:
  \<open>tmp_state[:] = 0.0\<close>, the loop, and \<open>new_state = np.copy(tmp_state)\<close>.
\<close>

fun apply_labels ::
  "real list \<Rightarrow> ci_info \<Rightarrow> nat list \<Rightarrow> bool \<Rightarrow> fermionic_operator \<Rightarrow> real list
     \<Rightarrow> py_error + real list" where
  "apply_labels new_state ci parity_check do_unsafe [] tmp_state = Inr tmp_state"
| "apply_labels new_state ci parity_check do_unsafe ((fermi_label, coeff) # rest) tmp_state =
     (case apply_operator new_state (anni_idx fermi_label) (create_idx fermi_label)
             (num_active_orbs ci) parity_check (idx2det ci) (det2idx ci) do_unsafe
             tmp_state coeff of
        Inl e \<Rightarrow> Inl e
      | Inr tmp_state \<Rightarrow> apply_labels new_state ci parity_check do_unsafe rest tmp_state)"

definition apply_fermionic_operator ::
  "ci_info \<Rightarrow> nat list \<Rightarrow> bool \<Rightarrow> fermionic_operator \<Rightarrow> real list \<Rightarrow> py_error + real list" where
  "apply_fermionic_operator ci parity_check do_unsafe op_folded new_state =
     apply_labels new_state ci parity_check do_unsafe op_folded
       (replicate (length new_state) 0)"

text \<open>
  \<open>propagate_operators\<close> runs the loop \<open>for op in operators[::-1]\<close> over FermionicOperators
  that are not folded; its list argument is already reversed.
  \<open>propagate_state_operators ci operators state\<close> is the call
  \<open>propagate_state(operators, state, ci_info, thetas, ups_struct, do_folding=False)\<close> on
  a list of FermionicOperators, as \<open>construct_ups_state\<close> and \<open>propagate_unitary\<close> make
  it; \<open>do_unsafe\<close> has its default \<open>False\<close> there.
\<close>

fun propagate_operators ::
  "ci_info \<Rightarrow> nat list \<Rightarrow> bool \<Rightarrow> fermionic_operator list \<Rightarrow> real list
     \<Rightarrow> py_error + real list" where
  "propagate_operators ci parity_check do_unsafe [] new_state = Inr new_state"
| "propagate_operators ci parity_check do_unsafe (op # ops) new_state =
     (case apply_fermionic_operator ci parity_check do_unsafe op new_state of
        Inl e \<Rightarrow> Inl e
      | Inr new_state \<Rightarrow> propagate_operators ci parity_check do_unsafe ops new_state)"

definition propagate_state_operators ::
  "ci_info \<Rightarrow> fermionic_operator list \<Rightarrow> real list \<Rightarrow> py_error + real list" where
  "propagate_state_operators ci operators state =
     propagate_operators ci (parity_check_table (num_active_orbs ci)) False (rev operators)
       state"

subsection \<open>The unitary product state\<close>

text \<open>Arithmetic of numpy vectors of equal length.\<close>

definition vec_add :: "real list \<Rightarrow> real list \<Rightarrow> real list" where
  "vec_add u v = map2 (+) u v"

definition vec_scale :: "real \<Rightarrow> real list \<Rightarrow> real list" where
  "vec_scale c v = map ((*) c) v"

text \<open>
  The expression
  \<open>tmp + sin(theta) * propagate_state([T], tmp, ...) + (1 - cos(theta)) * propagate_state([T, T], tmp, ...)\<close>,
  which \<open>construct_ups_state\<close> and \<open>propagate_unitary\<close> write out for each generator.
\<close>

definition analytic_step ::
  "ci_info \<Rightarrow> fermionic_operator \<Rightarrow> real \<Rightarrow> real list \<Rightarrow> py_error + real list" where
  "analytic_step ci T theta tmp =
     (case propagate_state_operators ci [T] tmp of
        Inl e \<Rightarrow> Inl e
      | Inr t1 \<Rightarrow>
          (case propagate_state_operators ci [T, T] tmp of
             Inl e \<Rightarrow> Inl e
           | Inr t2 \<Rightarrow>
               Inr (vec_add (vec_add tmp (vec_scale (sin theta) t1))
                      (vec_scale (1 - cos theta) t2))))"

text \<open>Tuple unpacking of the index array raises a ValueError on a wrong length.\<close>

definition unpack :: "nat \<Rightarrow> nat list \<Rightarrow> py_error + nat list" where
  "unpack n xs = (if length xs = n then Inr xs else Inl (ValueError ''unpack''))"

text \<open>
  The branches on \<open>exc_type\<close> that \<open>construct_ups_state\<close> and \<open>propagate_unitary\<close> share,
  for the parameter \<open>theta\<close> and the current state \<open>tmp\<close>. The inner \<open>else\<close> of the
  single/double branch cannot be reached and is left out.
\<close>

definition ups_unitary ::
  "collaborators \<Rightarrow> ci_info \<Rightarrow> string \<Rightarrow> nat list \<Rightarrow> real \<Rightarrow> real list \<Rightarrow> py_error + real list" where
  "ups_unitary im ci exc_type exc_indices theta tmp =
     (let offset = space_extension_offset ci in
      if exc_type = ''sa_single'' then
        (case unpack 2 (map (\<lambda>x. x + offset) exc_indices) of
           Inl e \<Rightarrow> Inl e
         | Inr ia \<Rightarrow>
             (let i = ia ! 0; a = ia ! 1;
                  Ta = G1 im (i * 2) (a * 2);
                  Tb = G1 im (i * 2 + 1) (a * 2 + 1)
              in case analytic_step ci Ta (1 * theta) tmp of
                   Inl e \<Rightarrow> Inl e
                 | Inr tmp \<Rightarrow> analytic_step ci Tb (1 * theta) tmp))
      else if exc_type = ''single'' \<or> exc_type = ''double'' then
        (if exc_type = ''single'' then
           (case unpack 2 (map (\<lambda>x. x + 2 * offset) exc_indices) of
              Inl e \<Rightarrow> Inl e
            | Inr ia \<Rightarrow> analytic_step ci (G1 im (ia ! 0) (ia ! 1)) theta tmp)
         else
           (case unpack 4 (map (\<lambda>x. x + 2 * offset) exc_indices) of
              Inl e \<Rightarrow> Inl e
            | Inr ijab \<Rightarrow>
                analytic_step ci (G2 im (ijab ! 0) (ijab ! 1) (ijab ! 2) (ijab ! 3)) theta tmp))
      else Inl (ValueError (''Got unknown excitation type, '' @ exc_type)))"

text \<open>
  The body of the loop of \<open>construct_ups_state\<close> for one zipped triple, where \<open>continue\<close>
  returns the state as it is, and the loop itself.
\<close>

definition ups_step ::
  "collaborators \<Rightarrow> ci_info \<Rightarrow> bool \<Rightarrow> string \<times> nat list \<times> real \<Rightarrow> real list
     \<Rightarrow> py_error + real list" where
  "ups_step im ci dagger step tmp =
     (case step of (exc_type, exc_indices, theta) \<Rightarrow>
        if \<bar>theta\<bar> < 1 / 10 ^ 14 then Inr tmp
        else
          let theta = (if dagger then - theta else theta) in
          ups_unitary im ci exc_type exc_indices theta tmp)"

fun ups_loop ::
  "collaborators \<Rightarrow> ci_info \<Rightarrow> bool \<Rightarrow> (string \<times> nat list \<times> real) list \<Rightarrow> real list
     \<Rightarrow> py_error + real list" where
  "ups_loop im ci dagger [] tmp = Inr tmp"
| "ups_loop im ci dagger (step # rest) tmp =
     (case ups_step im ci dagger step tmp of
        Inl e \<Rightarrow> Inl e
      | Inr tmp \<Rightarrow> ups_loop im ci dagger rest tmp)"

text \<open>The slice \<open>xs[::order]\<close> with \<open>order = -1\<close> when \<open>dagger\<close> and \<open>order = 1\<close> otherwise.\<close>

definition slice_order :: "bool \<Rightarrow> 'a list \<Rightarrow> 'a list" where
  "slice_order dagger xs = (if dagger then rev xs else xs)"

definition construct_ups_state ::
  "collaborators \<Rightarrow> real list \<Rightarrow> ci_info \<Rightarrow> real list \<Rightarrow> wf_structure \<Rightarrow> bool \<Rightarrow> py_error + real list" where
  "construct_ups_state im state ci thetas ups_struct dagger =
     ups_loop im ci dagger
       (zip (slice_order dagger (excitation_operator_type ups_struct))
          (zip (slice_order dagger (excitation_indices ups_struct))
             (slice_order dagger thetas)))
       state"

definition propagate_unitary ::
  "collaborators \<Rightarrow> real list \<Rightarrow> nat \<Rightarrow> ci_info \<Rightarrow> real list \<Rightarrow> wf_structure \<Rightarrow> py_error + real list" where
  "propagate_unitary im state idx ci thetas ups_struct =
     (if length (excitation_operator_type ups_struct) \<le> idx
         \<or> length (excitation_indices ups_struct) \<le> idx \<or> length thetas \<le> idx
      then Inl IndexError
      else
        let exc_type = excitation_operator_type ups_struct ! idx;
            exc_indices = excitation_indices ups_struct ! idx;
            theta = thetas ! idx
        in if \<bar>theta\<bar> < 1 / 10 ^ 14 then Inr state
           else ups_unitary im ci exc_type exc_indices theta state)"

subsection \<open>The unitary coupled cluster state\<close>

text \<open>
  The body of the loop of \<open>get_ucc_T\<close> for one zipped triple, where \<open>continue\<close> returns the
  operator as it is, and the loop itself.
\<close>

definition ucc_step ::
  "collaborators \<Rightarrow> nat \<Rightarrow> string \<times> nat list \<times> real \<Rightarrow> fermionic_operator
     \<Rightarrow> py_error + fermionic_operator" where
  "ucc_step im offset step T =
     (case step of (exc_type, exc_indices, theta) \<Rightarrow>
        if \<bar>theta\<bar> < 1 / 10 ^ 14 then Inr T
      else if exc_type = ''sa_single'' then
        (case unpack 2 (map (\<lambda>x. x + offset) exc_indices) of
           Inl e \<Rightarrow> Inl e
         | Inr ix \<Rightarrow> Inr
             (op_add im T (op_scale im theta (G1_sa im (ix ! 0) (ix ! 1)))))
      else if exc_type = ''sa_double_1'' then
        (case unpack 4 (map (\<lambda>x. x + offset) exc_indices) of
           Inl e \<Rightarrow> Inl e
         | Inr ix \<Rightarrow> Inr
             (op_add im T (op_scale im theta (G2_1_sa im (ix ! 0) (ix ! 1) (ix ! 2) (ix ! 3)))))
      else if exc_type = ''sa_double_2'' then
        (case unpack 4 (map (\<lambda>x. x + offset) exc_indices) of
           Inl e \<Rightarrow> Inl e
         | Inr ix \<Rightarrow> Inr
             (op_add im T (op_scale im theta (G2_2_sa im (ix ! 0) (ix ! 1) (ix ! 2) (ix ! 3)))))
      else if exc_type = ''single'' then
        (case unpack 2 (map (\<lambda>x. x + 2 * offset) exc_indices) of
           Inl e \<Rightarrow> Inl e
         | Inr ix \<Rightarrow> Inr
             (op_add im T (op_scale im theta (G1 im (ix ! 0) (ix ! 1)))))
      else if exc_type = ''double'' then
        (case unpack 4 (map (\<lambda>x. x + 2 * offset) exc_indices) of
           Inl e \<Rightarrow> Inl e
         | Inr ix \<Rightarrow> Inr
             (op_add im T (op_scale im theta (G2 im (ix ! 0) (ix ! 1) (ix ! 2) (ix ! 3)))))
      else if exc_type = ''triple'' then
        (case unpack 6 (map (\<lambda>x. x + 2 * offset) exc_indices) of
           Inl e \<Rightarrow> Inl e
         | Inr ix \<Rightarrow> Inr (op_add im T (op_scale im theta (G3 im ix))))
      else if exc_type = ''quadruple'' then
        (case unpack 8 (map (\<lambda>x. x + 2 * offset) exc_indices) of
           Inl e \<Rightarrow> Inl e
         | Inr ix \<Rightarrow> Inr (op_add im T (op_scale im theta (G4 im ix))))
      else if exc_type = ''quintuple'' then
        (case unpack 10 (map (\<lambda>x. x + 2 * offset) exc_indices) of
           Inl e \<Rightarrow> Inl e
         | Inr ix \<Rightarrow> Inr (op_add im T (op_scale im theta (G5 im ix))))
      else if exc_type = ''sextuple'' then
        (case unpack 12 (map (\<lambda>x. x + 2 * offset) exc_indices) of
           Inl e \<Rightarrow> Inl e
         | Inr ix \<Rightarrow> Inr (op_add im T (op_scale im theta (G6 im ix))))
      else Inl (ValueError (''Got unknown excitation type, '' @ exc_type)))"

fun get_ucc_T_loop ::
  "collaborators \<Rightarrow> nat \<Rightarrow> (string \<times> nat list \<times> real) list \<Rightarrow> fermionic_operator
     \<Rightarrow> py_error + fermionic_operator" where
  "get_ucc_T_loop im offset [] T = Inr T"
| "get_ucc_T_loop im offset (step # rest) T =
     (case ucc_step im offset step T of
        Inl e \<Rightarrow> Inl e
      | Inr T \<Rightarrow> get_ucc_T_loop im offset rest T)"

definition get_ucc_T ::
  "collaborators \<Rightarrow> real list \<Rightarrow> wf_structure \<Rightarrow> nat \<Rightarrow> py_error + fermionic_operator" where
  "get_ucc_T im thetas ucc_struct offset =
     get_ucc_T_loop im offset
       (zip (excitation_operator_type ucc_struct) (zip (excitation_indices ucc_struct) thetas))
       []"

definition construct_ucc_state ::
  "collaborators \<Rightarrow> real list \<Rightarrow> ci_info \<Rightarrow> real list \<Rightarrow> wf_structure \<Rightarrow> bool \<Rightarrow> py_error + real list" where
  "construct_ucc_state im state ci thetas ucc_struct dagger =
     (case get_ucc_T im thetas ucc_struct (space_extension_offset ci) of
        Inl e \<Rightarrow> Inl e
      | Inr T \<Rightarrow>
          (case build_operator_matrix T ci False of
             Inl e \<Rightarrow> Inl e
           | Inr Tmat \<Rightarrow>
               if dagger then Inr (expm_multiply im (map (map uminus) Tmat) state)
               else Inr (expm_multiply im Tmat state)))"

subsection \<open>\<open>propagate_state\<close>\<close>

fun propagate_state_loop ::
  "collaborators \<Rightarrow> ci_info \<Rightarrow> nat list \<Rightarrow> real list \<Rightarrow> wf_struct \<Rightarrow> bool \<Rightarrow> bool \<Rightarrow> operator list
     \<Rightarrow> real list \<Rightarrow> py_error + real list" where
  "propagate_state_loop im ci parity_check thetas wf_struct do_folding do_unsafe [] new_state =
     Inr new_state"
| "propagate_state_loop im ci parity_check thetas wf_struct do_folding do_unsafe (Str s # ops)
       new_state =
     (if s \<noteq> ''U'' \<and> s \<noteq> ''Ud''
      then Inl (ValueError (''Unknown str operator, expected (U, Ud) got '' @ s))
      else
        let dagger = (s = ''Ud'') in
        case wf_struct of
          UpsStructure ups_struct \<Rightarrow>
            (case construct_ups_state im new_state ci thetas ups_struct dagger of
               Inl e \<Rightarrow> Inl e
             | Inr new_state \<Rightarrow>
                 propagate_state_loop im ci parity_check thetas wf_struct do_folding do_unsafe ops
                   new_state)
        | UccStructure ucc_struct \<Rightarrow>
            (case construct_ucc_state im new_state ci thetas ucc_struct dagger of
               Inl e \<Rightarrow> Inl e
             | Inr new_state \<Rightarrow>
                 propagate_state_loop im ci parity_check thetas wf_struct do_folding do_unsafe ops
                   new_state)
        | OtherStructure \<Rightarrow>
            Inl (TypeError ''Got unknown wave function structure type''))"
| "propagate_state_loop im ci parity_check thetas wf_struct do_folding do_unsafe
       (FermionicOperator op # ops) new_state =
     (let op_folded =
            (if do_folding
             then get_folded_operator im op (num_inactive_orbs ci) (num_active_orbs ci)
                    (num_virtual_orbs ci)
             else op)
      in case apply_fermionic_operator ci parity_check do_unsafe op_folded new_state of
           Inl e \<Rightarrow> Inl e
         | Inr new_state \<Rightarrow>
             propagate_state_loop im ci parity_check thetas wf_struct do_folding do_unsafe ops
               new_state)"

definition propagate_state ::
  "collaborators \<Rightarrow> operator list \<Rightarrow> real list \<Rightarrow> ci_info \<Rightarrow> real list \<Rightarrow> wf_struct \<Rightarrow> bool \<Rightarrow> bool
     \<Rightarrow> py_error + real list" where
  "propagate_state im operators state ci thetas wf_struct do_folding do_unsafe =
     (if length operators = 0 then Inr state
      else propagate_state_loop im ci (parity_check_table (num_active_orbs ci)) thetas wf_struct
             do_folding do_unsafe (rev operators) state)"

subsection \<open>Tags, the closed form of the specification, and a concrete system\<close>

text \<open>The excitation types for which \<open>construct_ups_state\<close> and \<open>get_ucc_T\<close> have a branch.\<close>

definition ups_tags :: "string list" where
  "ups_tags = [''sa_single'', ''single'', ''double'']"

definition ucc_tags :: "string list" where
  "ucc_tags = [''sa_single'', ''sa_double_1'', ''sa_double_2'', ''single'', ''double'',
     ''triple'', ''quadruple'', ''quintuple'', ''sextuple'']"

text \<open>Sequencing of two computations that can raise.\<close>

definition and_then :: "py_error + 'a \<Rightarrow> ('a \<Rightarrow> py_error + 'b) \<Rightarrow> py_error + 'b" where
  "and_then r f = (case r of Inl e \<Rightarrow> Inl e | Inr x \<Rightarrow> f x)"


text \<open>
  Modelled from the spec: the single excitation generator \<open>G1(i, a, True)\<close> of
  \<open>operators.py\<close>, a file that is not among the sources. The specification calls it an
  anti-Hermitian single excitation generator: the excitation from \<open>i\<close> to \<open>a\<close> minus its
  adjoint.
\<close>

definition G1_model :: "nat \<Rightarrow> nat \<Rightarrow> fermionic_operator" where
  "G1_model i a = [([(a, True), (i, False)], 1), ([(i, True), (a, False)], - 1)]"

text \<open>
  A concrete system for evaluation: the two determinants of one electron in one active
  spatial orbital. Of the collaborators only \<open>G1\<close> is used on it; the others are
  placeholders.
\<close>

definition toy_collaborators :: collaborators where
  "toy_collaborators =
     \<lparr>G1 = G1_model, G2 = (\<lambda>i j a b. []), G3 = (\<lambda>ix. []), G4 = (\<lambda>ix. []), G5 = (\<lambda>ix. []),
      G6 = (\<lambda>ix. []), G1_sa = (\<lambda>i a. []), G2_1_sa = (\<lambda>i j a b. []),
      G2_2_sa = (\<lambda>i j a b. []), op_add = (\<lambda>s t. s @ t),
      op_scale = (\<lambda>c t. map (\<lambda>(l, x). (l, c * x)) t),
      get_folded_operator = (\<lambda>t ni na nv. t), expm_multiply = (\<lambda>m v. v)\<rparr>"

definition toy_ci :: ci_info where
  "toy_ci =
     \<lparr>idx2det = toy_idx2det, det2idx = toy_det2idx, num_inactive_orbs = 0,
      num_active_orbs = 1, num_virtual_orbs = 0, space_extension_offset = 0\<rparr>"

definition bogus_struct :: wf_structure where
  "bogus_struct = \<lparr>excitation_operator_type = [''bogus''], excitation_indices = [[0, 1]]\<rparr>"




text \<open>
  The product \<open>op_mat @ state\<close> of numpy, for a matrix given as the list of its rows, and a
  truncated CI space for evaluation: of the four determinants of two electrons with
  \<open>S\<^sub>z = 0\<close> in two spatial orbitals it keeps \<open>0110\<close> (spin orbitals 1 and 2) and \<open>1001\<close>
  (spin orbitals 0 and 3). The excitation from spin orbital 0 to spin orbital 2 leads
  out of it.
\<close>

definition dot :: "real list \<Rightarrow> real list \<Rightarrow> real" where
  "dot row v = sum_list (map2 (*) row v)"

definition matvec :: "real list list \<Rightarrow> real list \<Rightarrow> real list" where
  "matvec op_mat v = map (\<lambda>row. dot row v) op_mat"

definition truncated_ci :: ci_info where
  "truncated_ci =
     \<lparr>idx2det = [6, 9], det2idx = [6 \<mapsto> 0, 9 \<mapsto> 1], num_inactive_orbs = 0,
      num_active_orbs = 2, num_virtual_orbs = 0, space_extension_offset = 0\<rparr>"

definition excite_0_2 :: fermionic_operator where
  "excite_0_2 = [([(2, True), (0, False)], 1)]"

definition no_steps :: wf_structure where
  "no_steps = \<lparr>excitation_operator_type = [], excitation_indices = []\<rparr>"







section \<open>Properties of the RDM-element oracle\<close>

lemma block_Inactive: "block ni na p = Inactive \<longleftrightarrow> p < ni"
  by (simp add: block_def)

lemma block_Active: "block ni na p = Active \<longleftrightarrow> ni \<le> p \<and> p < ni + na"
  by (auto simp add: block_def)

lemma block_Virtual: "block ni na p = Virtual \<longleftrightarrow> ni + na \<le> p"
  by (auto simp add: block_def)

lemmas block_iff = block_Inactive block_Active block_Virtual

lemma RDM2_any_virtual:
  "ni + na \<le> p \<or> ni + na \<le> q \<or> ni + na \<le> r \<or> ni + na \<le> s
     \<Longrightarrow> RDM2 p q r s ni na rdm1 rdm2 = 0"
  by (simp add: RDM2_def)

lemma RDM2_aaaa:
  "ni \<le> p \<Longrightarrow> p < ni + na \<Longrightarrow> ni \<le> q \<Longrightarrow> q < ni + na \<Longrightarrow> ni \<le> r \<Longrightarrow> r < ni + na
     \<Longrightarrow> ni \<le> s \<Longrightarrow> s < ni + na
     \<Longrightarrow> RDM2 p q r s ni na rdm1 rdm2 = rdm2 (p - ni) (q - ni) (r - ni) (s - ni)"
  by (simp add: RDM2_def)

lemma if_delta2: "(if a = b \<and> c = d then x else (0::real)) = x * delta a b * delta c d"
  by (simp add: delta_def)

lemma if_minus_delta2:
  "(if a = b \<and> c = d then X - x else (X::real)) = X - x * delta a b * delta c d"
  by (simp add: delta_def)

lemma RDM2_iiii:
  assumes "p < ni" "q < ni" "r < ni" "s < ni"
  shows "RDM2 p q r s ni na rdm1 rdm2 = 4 * delta p q * delta r s - 2 * delta q r * delta p s"
  using assms
  by (simp add: RDM2_def Let_def if_delta2 if_minus_delta2 split del: if_split)

lemma RDM2_aaii:
  "ni \<le> p \<Longrightarrow> p < ni + na \<Longrightarrow> ni \<le> q \<Longrightarrow> q < ni + na \<Longrightarrow> r < ni \<Longrightarrow> s < ni
     \<Longrightarrow> RDM2 p q r s ni na rdm1 rdm2 = 2 * delta r s * rdm1 (p - ni) (q - ni)"
  by (simp add: RDM2_def delta_def)

lemma RDM2_iiaa:
  "p < ni \<Longrightarrow> q < ni \<Longrightarrow> ni \<le> r \<Longrightarrow> r < ni + na \<Longrightarrow> ni \<le> s \<Longrightarrow> s < ni + na
     \<Longrightarrow> RDM2 p q r s ni na rdm1 rdm2 = 2 * delta p q * rdm1 (r - ni) (s - ni)"
  by (simp add: RDM2_def delta_def)

lemma RDM2_iaai:
  "p < ni \<Longrightarrow> ni \<le> q \<Longrightarrow> q < ni + na \<Longrightarrow> ni \<le> r \<Longrightarrow> r < ni + na \<Longrightarrow> s < ni
     \<Longrightarrow> RDM2 p q r s ni na rdm1 rdm2 = - delta p s * rdm1 (q - ni) (r - ni)"
  by (simp add: RDM2_def delta_def)

lemma RDM2_aiia:
  "ni \<le> p \<Longrightarrow> p < ni + na \<Longrightarrow> q < ni \<Longrightarrow> r < ni \<Longrightarrow> ni \<le> s \<Longrightarrow> s < ni + na
     \<Longrightarrow> RDM2 p q r s ni na rdm1 rdm2 = - delta q r * rdm1 (p - ni) (s - ni)"
  by (simp add: RDM2_def delta_def)

lemma RDM2_unlisted:
  assumes "pattern ni na p q r s \<notin> set listed_patterns"
  shows "RDM2 p q r s ni na rdm1 rdm2 = 0"
proof -
  consider "p < ni" | "ni \<le> p" "p < ni + na" | "ni + na \<le> p" by linarith
  note cp = this
  consider "q < ni" | "ni \<le> q" "q < ni + na" | "ni + na \<le> q" by linarith
  note cq = this
  consider "r < ni" | "ni \<le> r" "r < ni + na" | "ni + na \<le> r" by linarith
  note cr = this
  consider "s < ni" | "ni \<le> s" "s < ni + na" | "ni + na \<le> s" by linarith
  note cs = this
  show ?thesis
    using assms
    by (cases rule: cp; cases rule: cq; cases rule: cr; cases rule: cs)
       (simp_all add: pattern_def listed_patterns_def block_def RDM2_def)
qed

lemma delta_sym: "delta i j = delta j i"
  by (auto simp add: delta_def)

text \<open>
  Claim C1. \<open>RDM2\<close> is branch-exact: it is 0 as soon as one index is virtual; the active
  tensor entry when all four indices are active; \<open>4 \<delta>\<^sub>p\<^sub>q \<delta>\<^sub>r\<^sub>s - 2 \<delta>\<^sub>q\<^sub>r \<delta>\<^sub>p\<^sub>s\<close> when all four are
  inactive; the signed and scaled 1-RDM lookups on the patterns uvij, ijuv, iuvj and uijv;
  and 0 on every block pattern that is not listed.
\<close>

theorem RDM2_branch_exact:
  "(Virtual \<in> set (pattern ni na p q r s) \<longrightarrow> RDM2 p q r s ni na rdm1 rdm2 = 0) \<and>
   (pattern ni na p q r s = [Active, Active, Active, Active] \<longrightarrow>
      RDM2 p q r s ni na rdm1 rdm2 = rdm2 (p - ni) (q - ni) (r - ni) (s - ni)) \<and>
   (pattern ni na p q r s = [Inactive, Inactive, Inactive, Inactive] \<longrightarrow>
      RDM2 p q r s ni na rdm1 rdm2 = 4 * delta p q * delta r s - 2 * delta q r * delta p s) \<and>
   (pattern ni na p q r s = [Active, Active, Inactive, Inactive] \<longrightarrow>
      RDM2 p q r s ni na rdm1 rdm2 = 2 * delta r s * rdm1 (p - ni) (q - ni)) \<and>
   (pattern ni na p q r s = [Inactive, Inactive, Active, Active] \<longrightarrow>
      RDM2 p q r s ni na rdm1 rdm2 = 2 * delta p q * rdm1 (r - ni) (s - ni)) \<and>
   (pattern ni na p q r s = [Inactive, Active, Active, Inactive] \<longrightarrow>
      RDM2 p q r s ni na rdm1 rdm2 = - delta p s * rdm1 (q - ni) (r - ni)) \<and>
   (pattern ni na p q r s = [Active, Inactive, Inactive, Active] \<longrightarrow>
      RDM2 p q r s ni na rdm1 rdm2 = - delta q r * rdm1 (p - ni) (s - ni)) \<and>
   (pattern ni na p q r s \<notin> set listed_patterns \<longrightarrow> RDM2 p q r s ni na rdm1 rdm2 = 0)"
proof (intro conjI impI)
  assume "Virtual \<in> set (pattern ni na p q r s)"
  then have "ni + na \<le> p \<or> ni + na \<le> q \<or> ni + na \<le> r \<or> ni + na \<le> s"
    by (auto simp add: pattern_def block_Virtual [symmetric])
  then show "RDM2 p q r s ni na rdm1 rdm2 = 0"
    by (rule RDM2_any_virtual)
next
  assume "pattern ni na p q r s = [Active, Active, Active, Active]"
  then show "RDM2 p q r s ni na rdm1 rdm2 = rdm2 (p - ni) (q - ni) (r - ni) (s - ni)"
    by (simp add: pattern_def block_iff RDM2_aaaa)
next
  assume "pattern ni na p q r s = [Inactive, Inactive, Inactive, Inactive]"
  then show "RDM2 p q r s ni na rdm1 rdm2
      = 4 * delta p q * delta r s - 2 * delta q r * delta p s"
    by (simp add: pattern_def block_iff RDM2_iiii)
next
  assume "pattern ni na p q r s = [Active, Active, Inactive, Inactive]"
  then show "RDM2 p q r s ni na rdm1 rdm2 = 2 * delta r s * rdm1 (p - ni) (q - ni)"
    by (simp add: pattern_def block_iff RDM2_aaii)
next
  assume "pattern ni na p q r s = [Inactive, Inactive, Active, Active]"
  then show "RDM2 p q r s ni na rdm1 rdm2 = 2 * delta p q * rdm1 (r - ni) (s - ni)"
    by (simp add: pattern_def block_iff RDM2_iiaa)
next
  assume "pattern ni na p q r s = [Inactive, Active, Active, Inactive]"
  then show "RDM2 p q r s ni na rdm1 rdm2 = - delta p s * rdm1 (q - ni) (r - ni)"
    by (simp add: pattern_def block_iff RDM2_iaai)
next
  assume "pattern ni na p q r s = [Active, Inactive, Inactive, Active]"
  then show "RDM2 p q r s ni na rdm1 rdm2 = - delta q r * rdm1 (p - ni) (s - ni)"
    by (simp add: pattern_def block_iff RDM2_aiia)
next
  assume "pattern ni na p q r s \<notin> set listed_patterns"
  then show "RDM2 p q r s ni na rdm1 rdm2 = 0"
    by (rule RDM2_unlisted)
qed

theorem RDM2_branch_exact_witness:
  "RDM2 3 1 1 1 1 2 toy_rdm1 toy_rdm2 = 0 \<and>
   RDM2 1 2 2 1 1 2 toy_rdm1 toy_rdm2 = toy_rdm2 0 1 1 0 \<and>
   RDM2 0 0 1 1 2 2 toy_rdm1 toy_rdm2 = 4 * delta 0 0 * delta 1 1 - 2 * delta 0 1 * delta 0 1 \<and>
   RDM2 1 2 0 0 1 2 toy_rdm1 toy_rdm2 = 2 * delta 0 0 * toy_rdm1 0 1 \<and>
   RDM2 0 0 1 2 1 2 toy_rdm1 toy_rdm2 = 2 * delta 0 0 * toy_rdm1 0 1 \<and>
   RDM2 0 1 2 0 1 2 toy_rdm1 toy_rdm2 = - delta 0 0 * toy_rdm1 0 1 \<and>
   RDM2 1 0 0 2 1 2 toy_rdm1 toy_rdm2 = - delta 0 0 * toy_rdm1 0 1 \<and>
   RDM2 0 1 0 1 1 2 toy_rdm1 toy_rdm2 = 0"
  using RDM2_branch_exact [of 1 2 3 1 1 1 toy_rdm1 toy_rdm2]
    RDM2_branch_exact [of 1 2 1 2 2 1 toy_rdm1 toy_rdm2]
    RDM2_branch_exact [of 2 2 0 0 1 1 toy_rdm1 toy_rdm2]
    RDM2_branch_exact [of 1 2 1 2 0 0 toy_rdm1 toy_rdm2]
    RDM2_branch_exact [of 1 2 0 0 1 2 toy_rdm1 toy_rdm2]
    RDM2_branch_exact [of 1 2 0 1 2 0 toy_rdm1 toy_rdm2]
    RDM2_branch_exact [of 1 2 1 0 0 2 toy_rdm1 toy_rdm2]
    RDM2_branch_exact [of 1 2 0 1 0 1 toy_rdm1 toy_rdm2]
  by (simp add: pattern_def block_def listed_patterns_def delta_def)

text \<open>
  Claim C5. When the active 1-RDM is symmetric and the active 2-RDM has the fourfold
  permutation symmetry on the active block, the full-space element satisfies
  \<open>RDM2(p,q,r,s) = RDM2(r,s,p,q) = RDM2(q,p,s,r) = RDM2(s,r,q,p)\<close> for every index quadruple.
\<close>

theorem RDM2_fourfold_symmetry:
  assumes sym1: "\<forall>a<na. \<forall>b<na. rdm1 a b = rdm1 b a"
    and sym2: "\<forall>a<na. \<forall>b<na. \<forall>c<na. \<forall>d<na.
        rdm2 a b c d = rdm2 c d a b \<and> rdm2 a b c d = rdm2 b a d c
        \<and> rdm2 a b c d = rdm2 d c b a"
  shows "RDM2 p q r s ni na rdm1 rdm2 = RDM2 r s p q ni na rdm1 rdm2
       \<and> RDM2 p q r s ni na rdm1 rdm2 = RDM2 q p s r ni na rdm1 rdm2
       \<and> RDM2 p q r s ni na rdm1 rdm2 = RDM2 s r q p ni na rdm1 rdm2"
proof (cases "pattern ni na p q r s \<in> set listed_patterns")
  case False
  then have "pattern ni na r s p q \<notin> set listed_patterns"
    "pattern ni na q p s r \<notin> set listed_patterns"
    "pattern ni na s r q p \<notin> set listed_patterns"
    by (auto simp add: pattern_def listed_patterns_def)
  with False show ?thesis
    by (simp add: RDM2_unlisted)
next
  case True
  have a1: "rdm1 (x - ni) (y - ni) = rdm1 (y - ni) (x - ni)"
    if "ni \<le> x" "x < ni + na" "ni \<le> y" "y < ni + na" for x y
  proof -
    have "x - ni < na" "y - ni < na" using that by simp_all
    then show ?thesis using sym1 by blast
  qed
  from True consider
      (aaaa) "pattern ni na p q r s = [Active, Active, Active, Active]"
    | (iaai) "pattern ni na p q r s = [Inactive, Active, Active, Inactive]"
    | (aiia) "pattern ni na p q r s = [Active, Inactive, Inactive, Active]"
    | (aaii) "pattern ni na p q r s = [Active, Active, Inactive, Inactive]"
    | (iiaa) "pattern ni na p q r s = [Inactive, Inactive, Active, Active]"
    | (iiii) "pattern ni na p q r s = [Inactive, Inactive, Inactive, Inactive]"
    by (auto simp add: listed_patterns_def)
  then show ?thesis
  proof cases
    case aaaa
    then have b: "ni \<le> p" "p < ni + na" "ni \<le> q" "q < ni + na"
      "ni \<le> r" "r < ni + na" "ni \<le> s" "s < ni + na"
      by (simp_all add: pattern_def block_iff)
    then have "p - ni < na" "q - ni < na" "r - ni < na" "s - ni < na"
      by simp_all
    then have "rdm2 (p - ni) (q - ni) (r - ni) (s - ni) = rdm2 (r - ni) (s - ni) (p - ni) (q - ni)
        \<and> rdm2 (p - ni) (q - ni) (r - ni) (s - ni) = rdm2 (q - ni) (p - ni) (s - ni) (r - ni)
        \<and> rdm2 (p - ni) (q - ni) (r - ni) (s - ni) = rdm2 (s - ni) (r - ni) (q - ni) (p - ni)"
      using sym2 by blast
    moreover have "RDM2 p q r s ni na rdm1 rdm2 = rdm2 (p - ni) (q - ni) (r - ni) (s - ni)"
      "RDM2 r s p q ni na rdm1 rdm2 = rdm2 (r - ni) (s - ni) (p - ni) (q - ni)"
      "RDM2 q p s r ni na rdm1 rdm2 = rdm2 (q - ni) (p - ni) (s - ni) (r - ni)"
      "RDM2 s r q p ni na rdm1 rdm2 = rdm2 (s - ni) (r - ni) (q - ni) (p - ni)"
      using b by (simp_all add: RDM2_aaaa)
    ultimately show ?thesis
      by simp
  next
    case iaai
    then have b: "p < ni" "ni \<le> q" "q < ni + na" "ni \<le> r" "r < ni + na" "s < ni"
      by (simp_all add: pattern_def block_iff)
    show ?thesis
      using a1 [of q r] b
      by (simp add: RDM2_iaai RDM2_aiia delta_sym [of s p])
  next
    case aiia
    then have b: "ni \<le> p" "p < ni + na" "q < ni" "r < ni" "ni \<le> s" "s < ni + na"
      by (simp_all add: pattern_def block_iff)
    show ?thesis
      using a1 [of p s] b
      by (simp add: RDM2_iaai RDM2_aiia delta_sym [of r q])
  next
    case aaii
    then have b: "ni \<le> p" "p < ni + na" "ni \<le> q" "q < ni + na" "r < ni" "s < ni"
      by (simp_all add: pattern_def block_iff)
    show ?thesis
      using a1 [of p q] b
      by (simp add: RDM2_aaii RDM2_iiaa delta_sym [of s r])
  next
    case iiaa
    then have b: "p < ni" "q < ni" "ni \<le> r" "r < ni + na" "ni \<le> s" "s < ni + na"
      by (simp_all add: pattern_def block_iff)
    show ?thesis
      using a1 [of r s] b
      by (simp add: RDM2_aaii RDM2_iiaa delta_sym [of q p])
  next
    case iiii
    then have b: "p < ni" "q < ni" "r < ni" "s < ni"
      by (simp_all add: pattern_def block_iff)
    show ?thesis
      using b
      by (simp add: RDM2_iiii delta_sym [of q p] delta_sym [of s r] delta_sym [of s p]
          delta_sym [of r q] mult.commute)
  qed
qed

theorem RDM2_fourfold_symmetry_witness:
  "RDM2 0 1 2 0 1 2 toy_rdm1 toy_rdm2 = RDM2 2 0 0 1 1 2 toy_rdm1 toy_rdm2
   \<and> RDM2 0 1 2 0 1 2 toy_rdm1 toy_rdm2 = RDM2 1 0 0 2 1 2 toy_rdm1 toy_rdm2
   \<and> RDM2 0 1 2 0 1 2 toy_rdm1 toy_rdm2 = RDM2 0 2 1 0 1 2 toy_rdm1 toy_rdm2
   \<and> RDM2 0 1 2 0 1 2 toy_rdm1 toy_rdm2 = - 2"
proof -
  have s1: "\<forall>a<2. \<forall>b<2. toy_rdm1 a b = toy_rdm1 b a"
    by (simp add: toy_rdm1_def add.commute)
  have s2: "\<forall>a<2. \<forall>b<2. \<forall>c<2. \<forall>d<2.
        toy_rdm2 a b c d = toy_rdm2 c d a b \<and> toy_rdm2 a b c d = toy_rdm2 b a d c
        \<and> toy_rdm2 a b c d = toy_rdm2 d c b a"
    by (simp add: toy_rdm2_def mult.commute add.commute)
  have "RDM2 0 1 2 0 1 2 toy_rdm1 toy_rdm2 = - 2"
    by (simp add: RDM2_def toy_rdm1_def)
  then show ?thesis
    using RDM2_fourfold_symmetry [OF s1 s2, of 0 1 2 0 1] by simp
qed


section \<open>Properties of the gradient and response evaluators\<close>

lemma fold_halve:
  assumes "\<And>x acc. F2 x (acc / 2) = F1 x acc / (2::real)"
  shows "fold F2 xs (a / 2) = fold F1 xs a / 2"
  by (induction xs arbitrary: a) (simp_all add: assms)

lemma response_1e_step_halve:
  "response_1e_step h_int m n ni na rdm1 p (acc / 2)
     = gradient_1e_step h_int m n ni na rdm1 p acc / 2"
  by (simp add: response_1e_step_def gradient_1e_step_def diff_divide_distrib add_divide_distrib)

lemma response_2e_step_halve:
  "response_2e_step g_int m n ni na rdm1 rdm2 p q r (acc / 2)
     = gradient_2e_step g_int m n ni na rdm1 rdm2 p q r acc / 2"
  by (simp add: response_2e_step_def gradient_2e_step_def diff_divide_distrib add_divide_distrib)

lemma response_entry_halve:
  "response_entry h_int g_int m n ni na rdm1 rdm2
     = gradient_entry h_int g_int m n ni na rdm1 rdm2 / 2"
proof -
  let ?orbs = "[0..<ni + na]"
  have one: "fold (response_1e_step h_int m n ni na rdm1) ?orbs 0
      = fold (gradient_1e_step h_int m n ni na rdm1) ?orbs 0 / 2"
    using fold_halve [of "response_1e_step h_int m n ni na rdm1"
        "gradient_1e_step h_int m n ni na rdm1" ?orbs 0]
    by (simp add: response_1e_step_halve)
  have inner: "fold (response_2e_step g_int m n ni na rdm1 rdm2 p q) xs (a / 2)
      = fold (gradient_2e_step g_int m n ni na rdm1 rdm2 p q) xs a / 2" for p q xs a
    by (rule fold_halve) (rule response_2e_step_halve)
  have middle: "fold (\<lambda>q. fold (response_2e_step g_int m n ni na rdm1 rdm2 p q) ys) xs (a / 2)
      = fold (\<lambda>q. fold (gradient_2e_step g_int m n ni na rdm1 rdm2 p q) ys) xs a / 2"
    for p xs ys a
    by (rule fold_halve) (rule inner)
  have outer:
    "fold (\<lambda>p. fold (\<lambda>q. fold (response_2e_step g_int m n ni na rdm1 rdm2 p q) zs) ys) xs (a / 2)
      = fold (\<lambda>p. fold (\<lambda>q. fold (gradient_2e_step g_int m n ni na rdm1 rdm2 p q) zs) ys) xs a / 2"
    for xs ys zs a
    by (rule fold_halve) (rule middle)
  show ?thesis
    by (simp add: response_entry_def gradient_entry_def Let_def one outer)
qed

text \<open>
  Claim C6, as stated: the response gradient keeps the 1-electron contributions of
  \<open>get_orbital_gradient\<close> and halves only the 2-electron coefficients. With vanishing
  2-electron integrals the two differ.
\<close>

theorem orbital_gradient_response_counterexample:
  "get_orbital_gradient_response toy_h zero_g [(0, 1)] 1 1 toy_rdm1 toy_rdm2
     \<noteq> spec_orbital_gradient_response toy_h zero_g [(0, 1)] 1 1 toy_rdm1 toy_rdm2"
proof -
  have a: "response_entry toy_h zero_g 0 1 1 1 toy_rdm1 toy_rdm2 = 1"
    by (simp add: response_entry_def response_1e_step_def response_2e_step_def
        RDM1_def toy_h_def zero_g_def toy_rdm1_def)
  have b: "spec_response_entry toy_h zero_g 0 1 1 1 toy_rdm1 toy_rdm2 = 2"
    by (simp add: spec_response_entry_def gradient_1e_step_def response_2e_step_def
        RDM1_def toy_h_def zero_g_def toy_rdm1_def)
  show ?thesis
    using a b
    by (simp add: get_orbital_gradient_response_def spec_orbital_gradient_response_def)
qed

text \<open>
  Claim C6, amended: \<open>get_orbital_gradient_response\<close> returns \<open>2 * len(kappa_idx)\<close> entries, the
  \<open>(m, n)\<close> block followed by the \<open>(n, m)\<close>-swapped block; each entry is one half of the
  corresponding entry of \<open>get_orbital_gradient\<close> (the 1-electron coefficients are halved as
  well as the 2-electron ones), scaled by \<open>2\<^sup>-\<^sup>1\<^sup>/\<^sup>2\<close>.
\<close>

theorem orbital_gradient_response_halved:
  "get_orbital_gradient_response h_int g_int kappa_idx ni na rdm1 rdm2
     = map (\<lambda>x. 2 powr (- 1 / 2) * (x / 2))
         (get_orbital_gradient h_int g_int kappa_idx ni na rdm1 rdm2
          @ get_orbital_gradient h_int g_int (map prod.swap kappa_idx) ni na rdm1 rdm2)
   \<and> length (get_orbital_gradient_response h_int g_int kappa_idx ni na rdm1 rdm2)
     = 2 * length kappa_idx"
  by (simp add: get_orbital_gradient_response_def get_orbital_gradient_def
      response_entry_halve split_def comp_def)

lemma RDM1_sym:
  assumes "\<forall>a<na. \<forall>b<na. rdm1 a b = rdm1 b a"
  shows "RDM1 p q ni na rdm1 = RDM1 q p ni na rdm1"
proof -
  have "rdm1 (p - ni) (q - ni) = rdm1 (q - ni) (p - ni)"
    if "ni \<le> p" "p < ni + na" "ni \<le> q" "q < ni + na"
  proof -
    have "p - ni < na" "q - ni < na" using that by simp_all
    then show ?thesis using assms by blast
  qed
  then show ?thesis
    by (auto simp add: RDM1_def)
qed

text \<open>
  Claim C7, as stated: the Sigma matrix is antisymmetric, the entry at \<open>(idx1, idx2)\<close> being
  minus the entry at \<open>(idx2, idx1)\<close>. The diagonal entry of a one-pair system is not zero.
\<close>

theorem sigma_antisymmetry_counterexample:
  "get_orbital_response_metric_sigma [(0, 1)] 1 1 toy_rdm1 ! 0 ! 0
     \<noteq> - (get_orbital_response_metric_sigma [(0, 1)] 1 1 toy_rdm1 ! 0 ! 0)"
  by (simp add: get_orbital_response_metric_sigma_def sigma_entry_def RDM1_def toy_rdm1_def)

text \<open>
  Claim C7, amended: for a symmetric active 1-RDM the Sigma matrix, with entries
  \<open>-1/2 [\<delta>\<^sub>p\<^sub>n \<Gamma>\<^sub>m\<^sub>q - \<delta>\<^sub>m\<^sub>q \<Gamma>\<^sub>p\<^sub>n]\<close>, is symmetric: the entry at \<open>(idx1, idx2)\<close> equals the entry
  at \<open>(idx2, idx1)\<close>.
\<close>

theorem sigma_symmetric:
  assumes sym1: "\<forall>a<na. \<forall>b<na. rdm1 a b = rdm1 b a"
    and i1: "idx1 < length kappa_idx" and i2: "idx2 < length kappa_idx"
  shows "get_orbital_response_metric_sigma kappa_idx ni na rdm1 ! idx1 ! idx2
       = - 1 / 2 * (delta (fst (kappa_idx ! idx2)) (fst (kappa_idx ! idx1))
                      * RDM1 (snd (kappa_idx ! idx1)) (snd (kappa_idx ! idx2)) ni na rdm1
                  - delta (snd (kappa_idx ! idx1)) (snd (kappa_idx ! idx2))
                      * RDM1 (fst (kappa_idx ! idx2)) (fst (kappa_idx ! idx1)) ni na rdm1)
     \<and> get_orbital_response_metric_sigma kappa_idx ni na rdm1 ! idx1 ! idx2
       = get_orbital_response_metric_sigma kappa_idx ni na rdm1 ! idx2 ! idx1"
proof -
  obtain n m where nm: "kappa_idx ! idx1 = (n, m)" by (cases "kappa_idx ! idx1")
  obtain p q where pq: "kappa_idx ! idx2 = (p, q)" by (cases "kappa_idx ! idx2")
  have s: "RDM1 x y ni na rdm1 = RDM1 y x ni na rdm1" for x y
    using sym1 by (rule RDM1_sym)
  have e12: "get_orbital_response_metric_sigma kappa_idx ni na rdm1 ! idx1 ! idx2
      = - 1 / 2 * sigma_entry (n, m) (p, q) ni na rdm1"
    using i1 i2 nm pq by (simp add: get_orbital_response_metric_sigma_def)
  have e21: "get_orbital_response_metric_sigma kappa_idx ni na rdm1 ! idx2 ! idx1
      = - 1 / 2 * sigma_entry (p, q) (n, m) ni na rdm1"
    using i1 i2 nm pq by (simp add: get_orbital_response_metric_sigma_def)
  have v: "sigma_entry (n, m) (p, q) ni na rdm1
      = delta p n * RDM1 m q ni na rdm1 - delta m q * RDM1 p n ni na rdm1"
    by (simp add: sigma_entry_def delta_def)
  have w: "sigma_entry (p, q) (n, m) ni na rdm1
      = delta n p * RDM1 q m ni na rdm1 - delta q m * RDM1 n p ni na rdm1"
    by (simp add: sigma_entry_def delta_def)
  have "sigma_entry (p, q) (n, m) ni na rdm1 = sigma_entry (n, m) (p, q) ni na rdm1"
    unfolding v w by (simp add: delta_sym [of n p] delta_sym [of q m] s [of q m] s [of n p])
  then show ?thesis
    using e12 e21 v nm pq by simp
qed

theorem sigma_symmetric_witness:
  "get_orbital_response_metric_sigma [(0, 1), (0, 2)] 1 2 toy_rdm1 ! 0 ! 1
     = get_orbital_response_metric_sigma [(0, 1), (0, 2)] 1 2 toy_rdm1 ! 1 ! 0
   \<and> get_orbital_response_metric_sigma [(0, 1), (0, 2)] 1 2 toy_rdm1 ! 0 ! 1 = - 1"
proof -
  have s1: "\<forall>a<2. \<forall>b<2. toy_rdm1 a b = toy_rdm1 b a"
    by (simp add: toy_rdm1_def add.commute)
  have "get_orbital_response_metric_sigma [(0, 1), (0, 2)] 1 2 toy_rdm1 ! 0 ! 1 = - 1"
    by (simp add: get_orbital_response_metric_sigma_def sigma_entry_def RDM1_def toy_rdm1_def)
  then show ?thesis
    using sigma_symmetric [OF s1, of 0 "[(0, 1), (0, 2)]" 1 1] by simp
qed

section \<open>Properties of the operator application engine\<close>

lemma apply_operator_loop_append:
  "apply_operator_loop state an cr na pc d2i unsafe factor (xs @ ys) tmp
     = (case apply_operator_loop state an cr na pc d2i unsafe factor xs tmp of
          Inl e \<Rightarrow> Inl e
        | Inr t \<Rightarrow> apply_operator_loop state an cr na pc d2i unsafe factor ys t)"
proof (induction xs arbitrary: tmp)
  case Nil
  show ?case by simp
next
  case (Cons x xs)
  obtain i det where x: "x = (i, det)" by (cases x)
  show ?case
    unfolding x
    by (simp add: Cons.IH split: sum.splits option.splits prod.splits)
qed

lemma add_operator_matrix_loop_append:
  "add_operator_matrix_loop an cr na pc d2i unsafe factor (xs @ ys) m
     = (case add_operator_matrix_loop an cr na pc d2i unsafe factor xs m of
          Inl e \<Rightarrow> Inl e
        | Inr t \<Rightarrow> add_operator_matrix_loop an cr na pc d2i unsafe factor ys t)"
proof (induction xs arbitrary: m)
  case Nil
  show ?case by simp
next
  case (Cons x xs)
  obtain i det where x: "x = (i, det)" by (cases x)
  show ?case
    unfolding x
    by (simp add: Cons.IH split: sum.splits option.splits prod.splits)
qed

lemma enumerate_split:
  "enumerate 0 (pre @ det # post)
     = enumerate 0 pre @ (length pre, det) # enumerate (Suc (length pre)) post"
  by (simp add: enumerate_append_eq)

text \<open>
  Claim C2, as stated: whenever the determinant produced by a non-kill operator string is
  absent from \<open>det2idx\<close> and \<open>do_unsafe\<close> is false, an error is raised and the result is
  never silently truncated. \<open>apply_operator\<close> skips a determinant whose amplitude is
  below the threshold before it applies the string: here the string maps the second
  determinant \<open>10\<close> to the absent \<open>01\<close>, and a result is returned without an error.
\<close>

theorem out_of_subspace_counterexample:
  "apply_string 1 [0, 2, 3] (rev [0]) (rev [1]) (open_idx2det ! 1) = Inr (Some (1, 0))
   \<and> open_det2idx 1 = None
   \<and> apply_operator [1, 1 / 10 ^ 15] [0] [1] 1 [0, 2, 3] open_idx2det open_det2idx False
         [0, 0] 1 = Inr [0, 0]"
  by (simp add: apply_operator_def apply_string_def bitcount_def open_idx2det_def
      open_det2idx_def)

text \<open>
  Claim C2, amended. Let the determinant at index \<open>length pre\<close> of \<open>idx2det\<close> be mapped by
  a non-kill operator string to a determinant \<open>det'\<close> that is absent from \<open>det2idx\<close>.
  In \<open>apply_operator\<close>, when its amplitude has magnitude below \<open>10\<^sup>-\<^sup>1\<^sup>4\<close> the determinant
  is skipped, with or without \<open>do_unsafe\<close>, and nothing is raised for it. When its
  amplitude has magnitude at least \<open>10\<^sup>-\<^sup>1\<^sup>4\<close>, and in \<open>add_operator_matrix\<close> always: with
  \<open>do_unsafe\<close> the contribution is discarded without an error (the result is that of
  the loop with this determinant left out); without \<open>do_unsafe\<close> no result is returned:
  unless an earlier determinant already raised, the lookup \<open>det2idx[det']\<close> raises a
  KeyError.
\<close>

theorem out_of_subspace_result:
  assumes "apply_string na pc (rev anni_idxs) (rev create_idxs) det = Inr (Some (det', ph))"
    and "d2i det' = None"
  shows "(length pre < length state \<and> \<bar>state ! length pre\<bar> < 1 / 10 ^ 14 \<longrightarrow>
      apply_operator state anni_idxs create_idxs na pc (pre @ det # post) d2i do_unsafe
          tmp_state factor
        = apply_operator_loop state (rev anni_idxs) (rev create_idxs) na pc d2i do_unsafe
            factor (enumerate 0 pre @ enumerate (Suc (length pre)) post) tmp_state)
    \<and> (length pre < length state \<and> 1 / 10 ^ 14 \<le> \<bar>state ! length pre\<bar> \<longrightarrow>
      apply_operator state anni_idxs create_idxs na pc (pre @ det # post) d2i True
          tmp_state factor
        = apply_operator_loop state (rev anni_idxs) (rev create_idxs) na pc d2i True factor
            (enumerate 0 pre @ enumerate (Suc (length pre)) post) tmp_state
    \<and> apply_operator state anni_idxs create_idxs na pc (pre @ det # post) d2i False
          tmp_state factor
        = (case apply_operator state anni_idxs create_idxs na pc pre d2i False
                  tmp_state factor of
             Inl e \<Rightarrow> Inl e
           | Inr t \<Rightarrow> Inl KeyError))
    \<and> add_operator_matrix op_mat anni_idxs create_idxs na pc (pre @ det # post) d2i True
          factor
        = add_operator_matrix_loop (rev anni_idxs) (rev create_idxs) na pc d2i True factor
            (enumerate 0 pre @ enumerate (Suc (length pre)) post) op_mat
    \<and> add_operator_matrix op_mat anni_idxs create_idxs na pc (pre @ det # post) d2i False
          factor
        = (case add_operator_matrix op_mat anni_idxs create_idxs na pc pre d2i False
                  factor of
             Inl e \<Rightarrow> Inl e
           | Inr t \<Rightarrow> Inl KeyError)"
proof (intro conjI impI)
  assume small: "length pre < length state \<and> \<bar>state ! length pre\<bar> < 1 / 10 ^ 14"
  show "apply_operator state anni_idxs create_idxs na pc (pre @ det # post) d2i do_unsafe
          tmp_state factor
        = apply_operator_loop state (rev anni_idxs) (rev create_idxs) na pc d2i do_unsafe
            factor (enumerate 0 pre @ enumerate (Suc (length pre)) post) tmp_state"
    using small
    by (simp add: apply_operator_def enumerate_split apply_operator_loop_append
        split: sum.splits)
next
  assume amp: "length pre < length state \<and> 1 / 10 ^ 14 \<le> \<bar>state ! length pre\<bar>"
  show "apply_operator state anni_idxs create_idxs na pc (pre @ det # post) d2i True
          tmp_state factor
        = apply_operator_loop state (rev anni_idxs) (rev create_idxs) na pc d2i True factor
            (enumerate 0 pre @ enumerate (Suc (length pre)) post) tmp_state"
    using assms amp
    by (simp add: apply_operator_def enumerate_split apply_operator_loop_append lookup_det_def
        split: sum.splits)
  show "apply_operator state anni_idxs create_idxs na pc (pre @ det # post) d2i False
          tmp_state factor
        = (case apply_operator state anni_idxs create_idxs na pc pre d2i False
                  tmp_state factor of
             Inl e \<Rightarrow> Inl e
           | Inr t \<Rightarrow> Inl KeyError)"
    using assms amp
    by (simp add: apply_operator_def enumerate_split apply_operator_loop_append lookup_det_def
        split: sum.splits)
next
  show "add_operator_matrix op_mat anni_idxs create_idxs na pc (pre @ det # post) d2i True
          factor
        = add_operator_matrix_loop (rev anni_idxs) (rev create_idxs) na pc d2i True factor
            (enumerate 0 pre @ enumerate (Suc (length pre)) post) op_mat"
    using assms
    by (simp add: add_operator_matrix_def enumerate_split add_operator_matrix_loop_append
        lookup_det_def split: sum.splits)
next
  show "add_operator_matrix op_mat anni_idxs create_idxs na pc (pre @ det # post) d2i False
          factor
        = (case add_operator_matrix op_mat anni_idxs create_idxs na pc pre d2i False
                  factor of
             Inl e \<Rightarrow> Inl e
           | Inr t \<Rightarrow> Inl KeyError)"
    using assms
    by (simp add: add_operator_matrix_def enumerate_split add_operator_matrix_loop_append
        lookup_det_def split: sum.splits)
qed

theorem out_of_subspace_result_witness:
  "apply_operator [1, 1 / 10 ^ 15] [0] [1] 1 [0, 2, 3] [0, 2] open_det2idx False [0, 0] 1
       = Inr [0, 0]
   \<and> apply_operator [1, 1] [0] [1] 1 [0, 2, 3] [0, 2] open_det2idx True [0, 0] 1
       = Inr [0, 0]
   \<and> apply_operator [1, 1] [0] [1] 1 [0, 2, 3] [0, 2] open_det2idx False [0, 0] 1
       = Inl KeyError
   \<and> add_operator_matrix [[0, 0], [0, 0]] [0] [1] 1 [0, 2, 3] [0, 2] open_det2idx True 1
       = Inr [[0, 0], [0, 0]]
   \<and> add_operator_matrix [[0, 0], [0, 0]] [0] [1] 1 [0, 2, 3] [0, 2] open_det2idx False 1
       = Inl KeyError"
proof -
  have s: "apply_string 1 [0, 2, 3] (rev [0]) (rev [1]) 2 = Inr (Some (1, 0))"
    by (simp add: apply_string_def bitcount_def)
  have n: "open_det2idx 1 = None"
    by (simp add: open_det2idx_def)
  have a: "apply_operator [1, 1] [0] [1] 1 [0, 2, 3] [0] open_det2idx False [0, 0] 1
      = Inr [0, 0]"
    by (simp add: apply_operator_def apply_string_def)
  have m: "add_operator_matrix [[0, 0], [0, 0]] [0] [1] 1 [0, 2, 3] [0] open_det2idx False 1
      = Inr [[0, 0], [0, 0]]"
    by (simp add: add_operator_matrix_def apply_string_def)
  have small: "apply_operator [1, 1 / 10 ^ 15] [0] [1] 1 [0, 2, 3] [0, 2] open_det2idx False
      [0, 0] 1 = Inr [0, 0]"
    using out_of_subspace_result [where na = 1 and pc = "[0, 2, 3]" and anni_idxs = "[0]"
        and create_idxs = "[1]" and det = 2 and det' = 1 and ph = 0
        and ?d2i = open_det2idx and pre = "[0]" and post = "[]"
        and state = "[1, 1 / 10 ^ 15]" and tmp_state = "[0, 0]" and factor = 1
        and do_unsafe = False, OF s n]
    by (simp add: apply_string_def)
  show ?thesis
    using out_of_subspace_result [where na = 1 and pc = "[0, 2, 3]" and anni_idxs = "[0]"
        and create_idxs = "[1]" and det = 2 and det' = 1 and ph = 0
        and ?d2i = open_det2idx and pre = "[0]" and post = "[]"
        and state = "[1, 1]" and tmp_state = "[0, 0]" and factor = 1
        and op_mat = "[[0, 0], [0, 0]]", OF s n]
      a m small
    by (simp add: apply_operator_def add_operator_matrix_def apply_string_def)
qed

lemma parity_fold:
  fixes num :: nat and pc :: "nat list"
  assumes "n \<le> M" and "length pc = M + 1"
  shows "\<exists>num' pc'.
      fold (\<lambda>i (num, parity_check). let num = num + 2 ^ i in (num, parity_check[M - i := num]))
        (rev [0..<n]) (num, pc) = (num', pc')
      \<and> length pc' = M + 1
      \<and> (\<forall>k\<le>M. pc' ! k = (if M - n < k then num + 2 ^ n - 2 ^ (M - k) else pc ! k))"
  using assms
proof (induction n arbitrary: num pc)
  case 0
  then show ?case by simp
next
  case (Suc n)
  let ?F = "\<lambda>i (num, parity_check). let num = num + 2 ^ i in (num, parity_check[M - i := num])"
  let ?num1 = "num + 2 ^ n"
  let ?pc1 = "pc[M - n := ?num1]"
  have len1: "length ?pc1 = M + 1" using Suc.prems by simp
  from Suc.prems have nM: "n \<le> M" by simp
  obtain num' pc' where
    f: "fold ?F (rev [0..<n]) (?num1, ?pc1) = (num', pc')"
    and l: "length pc' = M + 1"
    and v: "\<forall>k\<le>M. pc' ! k = (if M - n < k then ?num1 + 2 ^ n - 2 ^ (M - k) else ?pc1 ! k)"
    using Suc.IH [OF nM len1, of ?num1] by blast
  have step: "fold ?F (rev [0..<Suc n]) (num, pc) = (num', pc')"
    using f by (simp add: Let_def)
  have "pc' ! k = (if M - Suc n < k then num + 2 ^ Suc n - 2 ^ (M - k) else pc ! k)"
    if k: "k \<le> M" for k
  proof (cases "M - n < k")
    case True
    then have "pc' ! k = ?num1 + 2 ^ n - 2 ^ (M - k)" using v k by simp
    moreover have "M - Suc n < k" using True by simp
    ultimately show ?thesis by simp
  next
    case False
    then have e: "pc' ! k = ?pc1 ! k" using v k by simp
    show ?thesis
    proof (cases "k = M - n")
      case True
      then have "?pc1 ! k = ?num1" using Suc.prems by simp
      moreover have "M - k = n" using True Suc.prems by simp
      moreover have "M - Suc n < k" using True Suc.prems by simp
      ultimately show ?thesis using e by simp
    next
      case False
      then have "?pc1 ! k = pc ! k" by simp
      moreover have "\<not> M - Suc n < k" using False \<open>\<not> M - n < k\<close> by simp
      ultimately show ?thesis using e by simp
    qed
  qed
  with step l show ?case by blast
qed

lemma parity_check_table_nth:
  assumes "k \<le> 2 * na"
  shows "parity_check_table na ! k = 2 ^ (2 * na) - 2 ^ (2 * na - k)"
    and "length (parity_check_table na) = 2 * na + 1"
proof -
  let ?F = "\<lambda>i (num :: nat, parity_check :: nat list).
              let num = num + 2 ^ i in (num, parity_check[2 * na - i := num])"
  let ?init = "replicate (2 * na + 1) (0::nat)"
  have "\<exists>num' pc'. fold ?F (rev [0..<2 * na]) (0, ?init) = (num', pc')
      \<and> length pc' = 2 * na + 1
      \<and> (\<forall>k\<le>2 * na. pc' ! k
            = (if 2 * na - 2 * na < k then 0 + 2 ^ (2 * na) - 2 ^ (2 * na - k) else ?init ! k))"
    by (rule parity_fold) simp_all
  then obtain num' pc' where
    f: "fold ?F (rev [0..<2 * na]) (0, ?init) = (num', pc')"
    and l: "length pc' = 2 * na + 1"
    and v: "\<forall>k\<le>2 * na. pc' ! k
            = (if 2 * na - 2 * na < k then 0 + 2 ^ (2 * na) - 2 ^ (2 * na - k) else ?init ! k)"
    by blast
  have t: "parity_check_table na = pc'"
    unfolding parity_check_table_def f by simp
  show "length (parity_check_table na) = 2 * na + 1"
    using t l by simp
  show "parity_check_table na ! k = 2 ^ (2 * na) - 2 ^ (2 * na - k)"
  proof (cases "k = 0")
    case True
    then show ?thesis using t v assms by simp
  next
    case False
    then have "pc' ! k = 0 + 2 ^ (2 * na) - 2 ^ (2 * na - k)"
      using v assms by simp
    then show ?thesis using t by simp
  qed
qed

lemma parity_check_table_bit:
  assumes "k < 2 * na"
  shows "\<not> bit (parity_check_table na ! k) (2 * na - 1 - k)"
proof -
  have h: "(2::nat) ^ (2 * na) = 2 ^ (2 * na - k) * 2 ^ k"
    using assms by (simp add: power_add [symmetric])
  have "(2::nat) ^ (2 * na) - 2 ^ (2 * na - k) = 2 ^ (2 * na - k) * 2 ^ k - 2 ^ (2 * na - k) * 1"
    using h by simp
  also have "\<dots> = 2 ^ (2 * na - k) * (2 ^ k - 1)"
    by (simp only: diff_mult_distrib2)
  also have "\<dots> = push_bit (2 * na - k) (mask k)"
    by (simp add: push_bit_eq_mult mask_eq_exp_minus_1 mult.commute)
  finally have "parity_check_table na ! k = push_bit (2 * na - k) (mask k)"
    using assms by (simp add: parity_check_table_nth(1))
  moreover have "\<not> 2 * na - k \<le> 2 * na - 1 - k"
    using assms by arith
  ultimately show ?thesis
    by (simp add: bit_push_bit_iff)
qed
lemma bit_test_eq: "drop_bit b (det :: nat) AND 1 = (if bit det b then 1 else 0)"
  by (simp add: and_one_eq bit_iff_odd_drop_bit mod_2_eq_odd)

lemma flip_twice: "((det :: nat) XOR push_bit b 1) XOR push_bit b 1 = det"
  by (simp add: xor.assoc)

lemma bit_flip: "bit ((det :: nat) XOR push_bit b 1) b \<longleftrightarrow> \<not> bit det b"
  by (simp add: bit_xor_iff bit_exp_iff)

lemma and_flip:
  assumes "\<not> bit (m :: nat) b"
  shows "(det XOR push_bit b 1) AND m = det AND m"
proof (rule bit_eqI)
  fix j
  show "bit ((det XOR push_bit b 1) AND m) j \<longleftrightarrow> bit (det AND m) j"
    using assms by (cases "j = b") (simp_all add: bit_and_iff bit_xor_iff bit_exp_iff)
qed

lemma operator_loop_single:
  assumes "k < 2 * na" and "k < length pc"
  shows "operator_loop kill na pc [k] det ph
     = (if drop_bit (2 * na - 1 - k) det AND 1 = kill then Inr None
        else Inr (Some (det XOR push_bit (2 * na - 1 - k) 1,
               ph + bitcount ((det XOR push_bit (2 * na - 1 - k) 1) AND pc ! k))))"
  using assms by (simp add: Let_def)

lemma number_string:
  assumes "k < 2 * na"
  shows "apply_string na (parity_check_table na) [k] [k] det
     = (if bit det (2 * na - 1 - k)
        then Inr (Some (det, 2 * bitcount (det AND parity_check_table na ! k)))
        else Inr None)"
proof -
  let ?pc = "parity_check_table na"
  define b where "b = 2 * na - 1 - k"
  define d1 where "d1 = det XOR push_bit b 1"
  have len: "k < length ?pc"
    using assms parity_check_table_nth(2) [of k na] by simp
  have nb: "\<not> bit (?pc ! k) b"
    unfolding b_def using assms by (rule parity_check_table_bit)
  have L1: "operator_loop 0 na ?pc [k] det 0
      = (if drop_bit b det AND 1 = 0 then Inr None
         else Inr (Some (d1, 0 + bitcount (d1 AND ?pc ! k))))"
    unfolding b_def d1_def using assms len by (rule operator_loop_single)
  have L2: "operator_loop 1 na ?pc [k] d1 ph
      = (if drop_bit b d1 AND 1 = 1 then Inr None
         else Inr (Some (d1 XOR push_bit b 1, ph + bitcount ((d1 XOR push_bit b 1) AND ?pc ! k))))"
    for ph
    unfolding b_def using assms len by (rule operator_loop_single)
  have t0: "drop_bit b det AND 1 = (if bit det b then 1 else 0)"
    by (rule bit_test_eq)
  have t1: "drop_bit b d1 AND 1 = (if bit det b then 0 else 1)"
    unfolding d1_def by (simp only: bit_test_eq bit_flip) simp
  have d2: "d1 XOR push_bit b 1 = det"
    unfolding d1_def by (rule flip_twice)
  have a: "d1 AND ?pc ! k = det AND ?pc ! k"
    unfolding d1_def using nb by (rule and_flip)
  have "apply_string na ?pc [k] [k] det
      = (if bit det b then Inr (Some (det, 2 * bitcount (det AND ?pc ! k))) else Inr None)"
  proof (cases "bit det b")
    case False
    then show ?thesis
      unfolding apply_string_def L1 by (simp only: t0) simp
  next
    case True
    then have "apply_string na ?pc [k] [k] det
        = operator_loop 1 na ?pc [k] d1 (0 + bitcount (d1 AND ?pc ! k))"
      unfolding apply_string_def L1 by (simp only: t0) simp
    also have "\<dots> = Inr (Some (det, 2 * bitcount (det AND ?pc ! k)))"
      unfolding L2 using True by (simp only: t1 d2 a) simp
    finally show ?thesis
      using True by simp
  qed
  then show ?thesis
    unfolding b_def .
qed

lemma number_loop:
  assumes k: "k < 2 * na"
    and "length xs \<le> length state" and "length xs \<le> length tmp"
    and "\<forall>i<length xs. d2i (xs ! i) = Some i"
  shows "\<exists>t. apply_operator_loop state [k] [k] na (parity_check_table na) d2i unsafe factor
            (enumerate 0 xs) tmp = Inr t
      \<and> length t = length tmp
      \<and> (\<forall>j<length tmp. t ! j =
            (if j < length xs \<and> bit (xs ! j) (2 * na - 1 - k) \<and> 1 / 10 ^ 14 \<le> \<bar>state ! j\<bar>
             then tmp ! j + factor * state ! j else tmp ! j))"
  using assms(2-)
proof (induction xs rule: rev_induct)
  case Nil
  show ?case by simp
next
  case (snoc x xs)
  let ?n = "length xs"
  have pre: "length xs \<le> length state" "length xs \<le> length tmp"
    "\<forall>i<length xs. d2i (xs ! i) = Some i"
    using snoc.prems by (auto simp add: nth_append split: if_splits)
  obtain t where
    r: "apply_operator_loop state [k] [k] na (parity_check_table na) d2i unsafe factor
            (enumerate 0 xs) tmp = Inr t"
    and l: "length t = length tmp"
    and v: "\<forall>j<length tmp. t ! j =
            (if j < length xs \<and> bit (xs ! j) (2 * na - 1 - k) \<and> 1 / 10 ^ 14 \<le> \<bar>state ! j\<bar>
             then tmp ! j + factor * state ! j else tmp ! j)"
    using snoc.IH [OF pre] by blast
  have n1: "?n < length state" and n2: "?n < length tmp"
    using snoc.prems by simp_all
  have dx: "d2i x = Some ?n"
    using snoc.prems(3) by (auto simp add: nth_append split: if_splits)
  have tn: "t ! ?n = tmp ! ?n"
    using v n2 by simp
  have e: "enumerate 0 (xs @ [x]) = enumerate 0 xs @ [(?n, x)]"
    by (simp add: enumerate_append_eq)
  let ?t' = "if bit x (2 * na - 1 - k) \<and> 1 / 10 ^ 14 \<le> \<bar>state ! ?n\<bar>
             then t[?n := t ! ?n + factor * state ! ?n] else t"
  have "apply_operator_loop state [k] [k] na (parity_check_table na) d2i unsafe factor
            (enumerate 0 (xs @ [x])) tmp = Inr ?t'"
    using n1 n2 l dx
    by (simp add: e apply_operator_loop_append r number_string [OF k] lookup_det_def)
  moreover have "length ?t' = length tmp"
    using l by simp
  moreover have "\<forall>j<length tmp. ?t' ! j =
            (if j < length (xs @ [x]) \<and> bit ((xs @ [x]) ! j) (2 * na - 1 - k)
                  \<and> 1 / 10 ^ 14 \<le> \<bar>state ! j\<bar>
             then tmp ! j + factor * state ! j else tmp ! j)"
  proof (intro allI impI)
    fix j assume j: "j < length tmp"
    consider "j < ?n" | "j = ?n" | "?n < j" by linarith
    then show "?t' ! j =
            (if j < length (xs @ [x]) \<and> bit ((xs @ [x]) ! j) (2 * na - 1 - k)
                  \<and> 1 / 10 ^ 14 \<le> \<bar>state ! j\<bar>
             then tmp ! j + factor * state ! j else tmp ! j)"
    proof cases
      case 1
      then show ?thesis using v j by (simp add: nth_append)
    next
      case 2
      then show ?thesis using tn l n2 by (simp add: nth_append)
    next
      case 3
      then show ?thesis using v j by (simp add: nth_append)
    qed
  qed
  ultimately show ?case by blast
qed

text \<open>
  Claim C9, as stated: \<open>apply_operator\<close> with annihilation list \<open>[k]\<close> and creation list
  \<open>[k]\<close> maps every basis determinant to itself with coefficient \<open>+1\<close> times the factor.
  A determinant in which \<open>k\<close> is unoccupied is killed instead: here orbital 0 is empty in
  the second determinant, whose amplitude does not reach the result.
\<close>

theorem number_operator_counterexample:
  "apply_operator [1, 1] [0] [0] 1 (parity_check_table 1) toy_idx2det toy_det2idx False
      [0, 0] 1 \<noteq> Inr [1, 1]"
proof -
  have "parity_check_table 1 = [0, 2, 3]"
    by code_simp
  then show ?thesis
    by (simp add: apply_operator_def apply_string_def bitcount_def lookup_det_def
        toy_idx2det_def toy_det2idx_def)
qed

text \<open>
  Claim C9, amended: for every orbital \<open>k < 2 * num_active_orbs\<close>, annihilating and then
  creating at \<open>k\<close> returns a determinant in which \<open>k\<close> is occupied unchanged, with an even
  number of phase changes (sign \<open>+1\<close>), and kills a determinant in which \<open>k\<close> is unoccupied.
  So on a determinant index (\<open>det2idx\<close> inverse to \<open>idx2det\<close>) \<open>apply_operator\<close> with the
  lists \<open>[k]\<close> and \<open>[k]\<close> adds the factor times the amplitude to the entry of every
  determinant in which \<open>k\<close> is occupied and whose amplitude has magnitude at least
  \<open>10\<^sup>-\<^sup>1\<^sup>4\<close>, and leaves every other entry as it was.
\<close>

theorem number_operator_action:
  assumes "k < 2 * na"
    and "length state = length dets" and "length tmp_state = length dets"
    and "\<forall>i<length dets. d2i (dets ! i) = Some i"
  shows "apply_string na (parity_check_table na) [k] [k] det
       = (if bit det (2 * na - 1 - k)
          then Inr (Some (det, 2 * bitcount (det AND parity_check_table na ! k)))
          else Inr None)
     \<and> apply_operator state [k] [k] na (parity_check_table na) dets d2i do_unsafe
         tmp_state factor
       = Inr (map (\<lambda>i. if bit (dets ! i) (2 * na - 1 - k) \<and> 1 / 10 ^ 14 \<le> \<bar>state ! i\<bar>
                       then tmp_state ! i + factor * state ! i else tmp_state ! i)
                [0..<length dets])"
proof
  show "apply_string na (parity_check_table na) [k] [k] det
       = (if bit det (2 * na - 1 - k)
          then Inr (Some (det, 2 * bitcount (det AND parity_check_table na ! k)))
          else Inr None)"
    using assms(1) by (rule number_string)
next
  have "\<exists>t. apply_operator_loop state [k] [k] na (parity_check_table na) d2i do_unsafe
            factor (enumerate 0 dets) tmp_state = Inr t
      \<and> length t = length tmp_state
      \<and> (\<forall>j<length tmp_state. t ! j =
            (if j < length dets \<and> bit (dets ! j) (2 * na - 1 - k)
                  \<and> 1 / 10 ^ 14 \<le> \<bar>state ! j\<bar>
             then tmp_state ! j + factor * state ! j else tmp_state ! j))"
    using assms by (intro number_loop) simp_all
  then obtain t where
    r: "apply_operator_loop state [k] [k] na (parity_check_table na) d2i do_unsafe factor
            (enumerate 0 dets) tmp_state = Inr t"
    and l: "length t = length tmp_state"
    and v: "\<forall>j<length tmp_state. t ! j =
            (if j < length dets \<and> bit (dets ! j) (2 * na - 1 - k)
                  \<and> 1 / 10 ^ 14 \<le> \<bar>state ! j\<bar>
             then tmp_state ! j + factor * state ! j else tmp_state ! j)"
    by blast
  have "t = map (\<lambda>i. if bit (dets ! i) (2 * na - 1 - k) \<and> 1 / 10 ^ 14 \<le> \<bar>state ! i\<bar>
                       then tmp_state ! i + factor * state ! i else tmp_state ! i)
                [0..<length dets]"
    using l v assms(3) by (intro nth_equalityI) simp_all
  then show "apply_operator state [k] [k] na (parity_check_table na) dets d2i do_unsafe
         tmp_state factor
       = Inr (map (\<lambda>i. if bit (dets ! i) (2 * na - 1 - k) \<and> 1 / 10 ^ 14 \<le> \<bar>state ! i\<bar>
                       then tmp_state ! i + factor * state ! i else tmp_state ! i)
                [0..<length dets])"
    using r by (simp add: apply_operator_def)
qed

theorem number_operator_action_witness:
  "apply_string 1 (parity_check_table 1) [0] [0] 2
       = Inr (Some (2, 2 * bitcount (2 AND parity_check_table 1 ! 0)))
   \<and> apply_string 1 (parity_check_table 1) [0] [0] 1 = Inr None
   \<and> apply_operator [1, 1] [0] [0] 1 (parity_check_table 1) toy_idx2det toy_det2idx False
         [0, 0] 3 = Inr [3, 0]"
proof -
  have d: "\<forall>i<length toy_idx2det. toy_det2idx (toy_idx2det ! i) = Some i"
    by (simp add: toy_idx2det_def toy_det2idx_def less_Suc_eq)
  have l: "length [1, 1 :: real] = length toy_idx2det" "length [0, 0 :: real] = length toy_idx2det"
    by (simp_all add: toy_idx2det_def)
  have k: "(0::nat) < 2 * 1"
    by simp
  have u: "[0..<length toy_idx2det] = [0, 1]" "toy_idx2det ! 0 = 2" "toy_idx2det ! 1 = 1"
    by (simp_all add: toy_idx2det_def)
  show ?thesis
    using number_operator_action [OF k l d, of 2 False 3]
      number_operator_action [OF k l d, of 1 False 3]
    by (simp add: u toy_idx2det_def bit_Suc_0_iff)
qed

section \<open>Properties of the unitary constructors\<close>

lemma ups_loop_append:
  "ups_loop im ci dagger (xs @ ys) tmp
     = and_then (ups_loop im ci dagger xs tmp) (ups_loop im ci dagger ys)"
  by (induction xs arbitrary: tmp) (simp_all add: and_then_def split: sum.splits)

lemma get_ucc_T_loop_append:
  "get_ucc_T_loop im offset (xs @ ys) T
     = and_then (get_ucc_T_loop im offset xs T) (get_ucc_T_loop im offset ys)"
  by (induction xs arbitrary: T) (simp_all add: and_then_def split: sum.splits)

lemma ups_step_unknown:
  assumes "exc_type \<notin> set ups_tags" and "1 / 10 ^ 14 \<le> \<bar>theta\<bar>"
  shows "ups_step im ci dagger (exc_type, exc_indices, theta) tmp
     = Inl (ValueError (''Got unknown excitation type, '' @ exc_type))"
  using assms by (simp add: ups_step_def ups_unitary_def ups_tags_def Let_def)

lemma ucc_step_unknown:
  assumes "exc_type \<notin> set ucc_tags" and "1 / 10 ^ 14 \<le> \<bar>theta\<bar>"
  shows "ucc_step im offset (exc_type, exc_indices, theta) T
     = Inl (ValueError (''Got unknown excitation type, '' @ exc_type))"
  using assms by (simp add: ucc_step_def ucc_tags_def)

lemma zip3_append:
  assumes "length as = length bs" and "length bs = length cs"
  shows "zip (as @ a # as') (zip (bs @ b # bs') (cs @ c # cs'))
     = zip as (zip bs cs) @ (a, b, c) # zip as' (zip bs' cs')"
  using assms by simp

lemma ups_unitary_unknown:
  assumes "exc_type \<notin> set ups_tags"
  shows "ups_unitary im ci exc_type exc_indices theta tmp
     = Inl (ValueError (''Got unknown excitation type, '' @ exc_type))"
  using assms by (simp add: ups_unitary_def ups_tags_def)

text \<open>
  Claim C8, as stated: an unknown excitation-type tag makes state construction fail for
  every parameter value of that step. A step whose parameter is below the threshold is
  skipped before its tag is looked at, and nothing is raised.
\<close>

theorem unknown_tag_counterexample:
  "construct_ups_state toy_collaborators [1, 0] toy_ci [0] bogus_struct False = Inr [1, 0]
   \<and> propagate_unitary toy_collaborators [1, 0] 0 toy_ci [0] bogus_struct = Inr [1, 0]
   \<and> get_ucc_T toy_collaborators [0] bogus_struct 0 = Inr []"
  by (simp add: construct_ups_state_def propagate_unitary_def get_ucc_T_def bogus_struct_def
      slice_order_def ups_step_def ucc_step_def)

text \<open>
  Claim C8, amended: a step whose excitation-type tag is outside the known set and whose
  parameter has magnitude at least \<open>10\<^sup>-\<^sup>1\<^sup>4\<close> makes the construction fail with the
  ValueError of the unknown tag as soon as the step is reached, that is unless an earlier
  step has already raised: in \<open>construct_ups_state\<close> (both directions), in
  \<open>propagate_unitary\<close>, and in \<open>get_ucc_T\<close> when the UCC operator is built. A step with
  \<open>|\<theta>| < 10\<^sup>-\<^sup>1\<^sup>4\<close> is skipped without a look at its tag.
\<close>

theorem unknown_tag_raises:
  assumes "1 / 10 ^ 14 \<le> \<bar>theta\<bar>"
    and "length tys = length ixs" and "length ixs = length ths"
    and "length tys' = length ixs'" and "length ixs' = length ths'"
  shows "(exc_type \<notin> set ups_tags \<longrightarrow>
        construct_ups_state im state ci (ths @ theta # ths')
            \<lparr>excitation_operator_type = tys @ exc_type # tys',
             excitation_indices = ixs @ ix # ixs'\<rparr> False
          = and_then (construct_ups_state im state ci ths
                \<lparr>excitation_operator_type = tys, excitation_indices = ixs\<rparr> False)
              (\<lambda>tmp. Inl (ValueError (''Got unknown excitation type, '' @ exc_type)))
      \<and> construct_ups_state im state ci (ths @ theta # ths')
            \<lparr>excitation_operator_type = tys @ exc_type # tys',
             excitation_indices = ixs @ ix # ixs'\<rparr> True
          = and_then (construct_ups_state im state ci ths'
                \<lparr>excitation_operator_type = tys', excitation_indices = ixs'\<rparr> True)
              (\<lambda>tmp. Inl (ValueError (''Got unknown excitation type, '' @ exc_type)))
      \<and> propagate_unitary im state (length tys) ci (ths @ theta # ths')
            \<lparr>excitation_operator_type = tys @ exc_type # tys',
             excitation_indices = ixs @ ix # ixs'\<rparr>
          = Inl (ValueError (''Got unknown excitation type, '' @ exc_type)))
    \<and> (exc_type \<notin> set ucc_tags \<longrightarrow>
        get_ucc_T im (ths @ theta # ths')
            \<lparr>excitation_operator_type = tys @ exc_type # tys',
             excitation_indices = ixs @ ix # ixs'\<rparr> offset
          = and_then (get_ucc_T im ths
                \<lparr>excitation_operator_type = tys, excitation_indices = ixs\<rparr> offset)
              (\<lambda>T. Inl (ValueError (''Got unknown excitation type, '' @ exc_type))))"
proof (intro conjI impI)
  assume u: "exc_type \<notin> set ups_tags"
  show "construct_ups_state im state ci (ths @ theta # ths')
            \<lparr>excitation_operator_type = tys @ exc_type # tys',
             excitation_indices = ixs @ ix # ixs'\<rparr> False
          = and_then (construct_ups_state im state ci ths
                \<lparr>excitation_operator_type = tys, excitation_indices = ixs\<rparr> False)
              (\<lambda>tmp. Inl (ValueError (''Got unknown excitation type, '' @ exc_type)))"
    using assms(2-)
    by (simp add: construct_ups_state_def slice_order_def zip3_append ups_loop_append
        ups_step_unknown [OF u assms(1)] and_then_def split: sum.splits)
  have r: "length (rev tys') = length (rev ixs')" "length (rev ixs') = length (rev ths')"
    using assms by simp_all
  show "construct_ups_state im state ci (ths @ theta # ths')
            \<lparr>excitation_operator_type = tys @ exc_type # tys',
             excitation_indices = ixs @ ix # ixs'\<rparr> True
          = and_then (construct_ups_state im state ci ths'
                \<lparr>excitation_operator_type = tys', excitation_indices = ixs'\<rparr> True)
              (\<lambda>tmp. Inl (ValueError (''Got unknown excitation type, '' @ exc_type)))"
    by (simp add: construct_ups_state_def slice_order_def zip3_append [OF r] ups_loop_append
        ups_step_unknown [OF u assms(1)] and_then_def split: sum.splits)
  show "propagate_unitary im state (length tys) ci (ths @ theta # ths')
            \<lparr>excitation_operator_type = tys @ exc_type # tys',
             excitation_indices = ixs @ ix # ixs'\<rparr>
          = Inl (ValueError (''Got unknown excitation type, '' @ exc_type))"
    using assms
    by (simp add: propagate_unitary_def nth_append ups_unitary_unknown [OF u])
next
  assume c: "exc_type \<notin> set ucc_tags"
  show "get_ucc_T im (ths @ theta # ths')
            \<lparr>excitation_operator_type = tys @ exc_type # tys',
             excitation_indices = ixs @ ix # ixs'\<rparr> offset
          = and_then (get_ucc_T im ths
                \<lparr>excitation_operator_type = tys, excitation_indices = ixs\<rparr> offset)
              (\<lambda>T. Inl (ValueError (''Got unknown excitation type, '' @ exc_type)))"
    using assms(2-)
    by (simp add: get_ucc_T_def zip3_append get_ucc_T_loop_append
        ucc_step_unknown [OF c assms(1)] and_then_def split: sum.splits)
qed

theorem unknown_tag_raises_witness:
  "construct_ups_state toy_collaborators [1, 0] toy_ci [1] bogus_struct False
       = Inl (ValueError ''Got unknown excitation type, bogus'')
   \<and> construct_ups_state toy_collaborators [1, 0] toy_ci [1] bogus_struct True
       = Inl (ValueError ''Got unknown excitation type, bogus'')
   \<and> propagate_unitary toy_collaborators [1, 0] 0 toy_ci [1] bogus_struct
       = Inl (ValueError ''Got unknown excitation type, bogus'')
   \<and> get_ucc_T toy_collaborators [1] bogus_struct 0
       = Inl (ValueError ''Got unknown excitation type, bogus'')"
proof -
  have t: "(1::real) / 10 ^ 14 \<le> \<bar>1\<bar>"
    by simp
  have e: "construct_ups_state toy_collaborators [1, 0] toy_ci []
      \<lparr>excitation_operator_type = [], excitation_indices = []\<rparr> False = Inr [1, 0]"
    "construct_ups_state toy_collaborators [1, 0] toy_ci []
      \<lparr>excitation_operator_type = [], excitation_indices = []\<rparr> True = Inr [1, 0]"
    "get_ucc_T toy_collaborators [] \<lparr>excitation_operator_type = [], excitation_indices = []\<rparr> 0
      = Inr []"
    by (simp_all add: construct_ups_state_def slice_order_def get_ucc_T_def)
  show ?thesis
    using unknown_tag_raises [OF t, of "[]" "[]" "[]" "[]" "[]" "[]" "''bogus''"
        toy_collaborators "[1, 0]" toy_ci "[0, 1]" 0]
    by (simp add: e bogus_struct_def ups_tags_def ucc_tags_def and_then_def)
qed

lemma parity_check_table_1: "parity_check_table 1 = [0, 2, 3]"
  by code_simp


lemma toy_strings:
  "apply_string 1 [0, 2, 3] [0] [1] 2 = Inr (Some (1, 0))"
  "apply_string 1 [0, 2, 3] [0] [1] 1 = Inr None"
  "apply_string 1 [0, 2, 3] [1] [0] 2 = Inr None"
  "apply_string 1 [0, 2, 3] [1] [0] 1 = Inr (Some (2, 0))"
  by (simp_all add: apply_string_def bitcount_def)

























section \<open>The materialised matrix and the direct application\<close>

lemma dot_update:
  assumes "i < length row" and "length row = length v"
  shows "dot (row[i := row ! i + c]) v = dot row v + c * v ! i"
  using assms
proof (induction row arbitrary: i v)
  case Nil
  then show ?case by simp
next
  case (Cons r row)
  then obtain x v' where v: "v = x # v'"
    by (cases v) simp_all
  show ?case
  proof (cases i)
    case 0
    then show ?thesis
      by (simp add: v dot_def algebra_simps)
  next
    case (Suc k)
    then have "dot (row[k := row ! k + c]) v' = dot row v' + c * v' ! k"
      using Cons.IH [of k v'] Cons.prems v by simp
    then show ?thesis
      using Suc by (simp add: v dot_def)
  qed
qed

lemma dot_zero: "dot (replicate k 0) v = 0"
  by (induction k arbitrary: v) (simp add: dot_def, case_tac v, simp_all add: dot_def)

lemma matvec_zero: "matvec (replicate n (replicate k 0)) v = replicate n 0"
  by (simp add: matvec_def dot_zero)

lemma matvec_update:
  assumes "j < length m" and "i < length (m ! j)" and "length (m ! j) = length v"
  shows "matvec (m[j := (m ! j)[i := m ! j ! i + c]]) v
     = (matvec m v)[j := matvec m v ! j + c * v ! i]"
  using assms by (simp add: matvec_def map_update dot_update)

lemma length_matvec: "length (matvec m v) = length m"
  by (simp add: matvec_def)

lemma direct_loop_follows_matrix_loop:
  assumes "add_operator_matrix_loop an cr na pc d2i u f ds m = Inr m'"
    and "length m = n" and "\<forall>j<n. length (m ! j) = n" and "length state = n"
    and "\<forall>p \<in> set ds. fst p < n"
    and "\<forall>x \<in> set state. x = 0 \<or> 1 / 10 ^ 14 \<le> \<bar>x\<bar>"
  shows "apply_operator_loop state an cr na pc d2i u f ds (matvec m state)
       = Inr (matvec m' state)
     \<and> length m' = n \<and> (\<forall>j<n. length (m' ! j) = n)"
  using assms(1, 2, 3, 5)
proof (induction ds arbitrary: m)
  case Nil
  then show ?case by simp
next
  case (Cons a ds)
  obtain i det where a: "a = (i, det)"
    by (cases a)
  have i: "i < n" and ds: "\<forall>p \<in> set ds. fst p < n"
    using Cons.prems(4) a by simp_all
  have si: "length state > i"
    using i assms(4) by simp
  have amp: "\<bar>state ! i\<bar> < 1 / 10 ^ 14 \<Longrightarrow> state ! i = 0"
    using assms(6) si nth_mem [of i state] by fastforce
  show ?case
  proof (cases "apply_string na pc an cr det")
    case (Inl e)
    then show ?thesis
      using Cons.prems(1) a by simp
  next
    case (Inr r)
    show ?thesis
    proof (cases r)
      case None
      then have "add_operator_matrix_loop an cr na pc d2i u f ds m = Inr m'"
        using Cons.prems(1) a Inr by simp
      from Cons.IH [OF this Cons.prems(2, 3) ds] show ?thesis
        using a Inr None si by simp
    next
      case (Some q)
      obtain det' ph where q: "q = (det', ph)"
        by (cases q)
      show ?thesis
      proof (cases "lookup_det d2i u det'")
        case (Inl e)
        then show ?thesis
          using Cons.prems(1) a Inr Some q by simp
      next
        case lk: (Inr t)
        show ?thesis
        proof (cases t)
          case None
          then have "add_operator_matrix_loop an cr na pc d2i u f ds m = Inr m'"
            using Cons.prems(1) a Inr Some q lk by simp
          from Cons.IH [OF this Cons.prems(2, 3) ds] show ?thesis
            using a Inr Some q lk None si by simp
        next
          case j: (Some j)
          define m1 where "m1 = m[j := (m ! j)[i := m ! j ! i + f * (- 1) ^ ph]]"
          have rng: "j < length m" "i < length (m ! j)"
            using Cons.prems(1) a Inr Some q lk j
            by (auto split: if_splits)
          then have jn: "j < n"
            using Cons.prems(2) by simp
          have step: "add_operator_matrix_loop an cr na pc d2i u f ds m1 = Inr m'"
            using Cons.prems(1) a Inr Some q lk j rng by (simp add: m1_def)
          have shape: "length m1 = n" "\<forall>k<n. length (m1 ! k) = n"
            using Cons.prems(2, 3) jn by (simp_all add: m1_def nth_list_update)
          note ih = Cons.IH [OF step shape ds]
          have row: "length (m ! j) = length state"
            using Cons.prems(3) jn assms(4) by simp
          have mv: "matvec m1 state
              = (matvec m state)[j := matvec m state ! j + f * (- 1) ^ ph * state ! i]"
            unfolding m1_def using matvec_update [OF rng row] by simp
          have lj: "\<not> length (matvec m state) \<le> j"
            using rng by (simp add: length_matvec)
          show ?thesis
          proof (cases "\<bar>state ! i\<bar> < 1 / 10 ^ 14")
            case True
            then have "matvec m1 state = matvec m state"
              using mv amp by simp
            then show ?thesis
              using ih a si True by simp
          next
            case False
            then show ?thesis
              using ih a si Inr Some q lk j lj mv by simp
          qed
        qed
      qed
    qed
  qed
qed

lemma enumerate_bound: "\<forall>p \<in> set (enumerate 0 xs). fst p < length xs"
  by (auto simp add: in_set_enumerate_eq)

lemma direct_follows_matrix:
  assumes "build_operator_matrix_loop ci pc u op m = Inr m'"
    and "length m = length (idx2det ci)"
    and "\<forall>j<length (idx2det ci). length (m ! j) = length (idx2det ci)"
    and "length state = length (idx2det ci)"
    and "\<forall>x \<in> set state. x = 0 \<or> 1 / 10 ^ 14 \<le> \<bar>x\<bar>"
  shows "apply_labels state ci pc u op (matvec m state) = Inr (matvec m' state)"
  using assms(1, 2, 3)
proof (induction op arbitrary: m)
  case Nil
  then show ?case by simp
next
  case (Cons a op)
  obtain fermi_label coeff where a: "a = (fermi_label, coeff)"
    by (cases a)
  obtain m1 where m1: "add_operator_matrix_loop (rev (anni_idx fermi_label))
        (rev (create_idx fermi_label)) (num_active_orbs ci) pc (det2idx ci) u coeff
        (enumerate 0 (idx2det ci)) m = Inr m1"
    and rest: "build_operator_matrix_loop ci pc u op m1 = Inr m'"
    using Cons.prems(1) a by (auto simp add: add_operator_matrix_def split: sum.splits)
  note inner = direct_loop_follows_matrix_loop [OF m1 Cons.prems(2, 3) assms(4)
      enumerate_bound assms(5)]
  from inner have "apply_labels state ci pc u op (matvec m1 state) = Inr (matvec m' state)"
    using Cons.IH [OF rest] by simp
  then show ?case
    using inner a by (simp add: apply_operator_def)
qed

lemma parity_check_table_2: "parity_check_table 2 = [0, 8, 12, 14, 15]"
  by code_simp

lemma excite_0_2_split:
  "anni_idx [(2, True), (0, False)] = [0]" "create_idx [(2, True), (0, False)] = [2]"
  by (simp_all add: anni_idx_def create_idx_def)

text \<open>
  Claim C10, as stated: for every operator, CI space and \<open>do_unsafe\<close> flag, and every
  state whose amplitudes are zero or at least \<open>10\<^sup>-\<^sup>1\<^sup>4\<close> in magnitude, the matrix of
  \<open>build_operator_matrix\<close> applied to the state equals the result of \<open>propagate_state\<close>.
  In the truncated space, without \<open>do_unsafe\<close>, the excitation from spin orbital 0 to
  spin orbital 2 takes the second determinant out of the space: \<open>build_operator_matrix\<close>
  raises and there is no matrix, while \<open>propagate_state\<close> skips the determinant, whose
  amplitude is zero, and returns.
\<close>

theorem matrix_path_counterexample:
  "build_operator_matrix excite_0_2 truncated_ci False = Inl KeyError
   \<and> propagate_state toy_collaborators [FermionicOperator excite_0_2] [1, 0] truncated_ci []
         (UpsStructure no_steps) False False = Inr [0, 0]"
  by (simp add: build_operator_matrix_def propagate_state_def apply_fermionic_operator_def
      excite_0_2_def truncated_ci_def excite_0_2_split parity_check_table_2
      add_operator_matrix_def apply_operator_def apply_string_def bitcount_def lookup_det_def)

text \<open>
  Claim C10, amended: whenever \<open>build_operator_matrix(op, ci_info, do_unsafe)\<close> returns a
  matrix, then for every state with one amplitude per determinant, each amplitude zero or
  of magnitude at least \<open>10\<^sup>-\<^sup>1\<^sup>4\<close>, the call
  \<open>propagate_state([op], state, ci_info, ..., do_folding=False, do_unsafe)\<close> returns as
  well, and its result is the matrix multiplied onto the state.
\<close>

theorem matrix_path_agrees:
  assumes "build_operator_matrix op ci do_unsafe = Inr op_mat"
    and "length state = length (idx2det ci)"
    and "\<forall>x \<in> set state. x = 0 \<or> 1 / 10 ^ 14 \<le> \<bar>x\<bar>"
  shows "propagate_state im [FermionicOperator op] state ci thetas wf_struct False do_unsafe
     = Inr (matvec op_mat state)"
proof -
  define n where "n = length (idx2det ci)"
  define pc where "pc = parity_check_table (num_active_orbs ci)"
  have b: "build_operator_matrix_loop ci pc do_unsafe op (replicate n (replicate n 0))
      = Inr op_mat"
    using assms(1) by (simp add: build_operator_matrix_def n_def pc_def Let_def)
  have "apply_labels state ci pc do_unsafe op (matvec (replicate n (replicate n 0)) state)
      = Inr (matvec op_mat state)"
    using direct_follows_matrix [OF b _ _ assms(2, 3)] by (simp add: n_def)
  then show ?thesis
    using assms(2)
    by (simp add: propagate_state_def apply_fermionic_operator_def matvec_zero n_def pc_def)
qed

theorem matrix_path_agrees_witness:
  "build_operator_matrix (G1_model 0 1) toy_ci False = Inr [[0, - 1], [1, 0]]
   \<and> propagate_state toy_collaborators [FermionicOperator (G1_model 0 1)] [3, 4] toy_ci []
         (UpsStructure no_steps) False False = Inr [- 4, 3]"
proof -
  have b: "build_operator_matrix (G1_model 0 1) toy_ci False = Inr [[0, - 1], [1, 0]]"
    by (simp add: build_operator_matrix_def G1_model_def toy_ci_def anni_idx_def
        create_idx_def parity_check_table_1 [unfolded One_nat_def] add_operator_matrix_def
        apply_string_def bitcount_def lookup_det_def toy_idx2det_def toy_det2idx_def)
  have l: "length [3, 4 :: real] = length (idx2det toy_ci)"
    by (simp add: toy_ci_def toy_idx2det_def)
  have a: "\<forall>x \<in> set [3, 4 :: real]. x = 0 \<or> 1 / 10 ^ 14 \<le> \<bar>x\<bar>"
    by simp
  show ?thesis
    using matrix_path_agrees [OF b l a, of toy_collaborators "[]" "UpsStructure no_steps"] b
    by (simp add: matvec_def dot_def)
qed


section \<open>The adjoint of the ansatz unitary\<close>























end
